theory Spec2Isabelle
  imports Complex_Main
begin

section \<open>Investment summary generator: the ratio judgment engine\<close>

text \<open>
  A shallow embedding of the class \<open>InvestmentSummaryGenerator\<close> of
  \<open>investment_summary.py\<close>.  A real number stands for the float nearest to it.  The
  products that the code computes and the numbers that it prints are rounded to
  binary64 as the machine rounds them; the comparisons with the thresholds are made on
  the numbers as they are written.  Exceptions are values of a sum type, and the
  \<open>while\<close> loop that pads the bull and bear lists is a partial function whose
  termination is proved.
\<close>

subsection \<open>Python values and exceptions\<close>

text \<open>
  A scalar stored in the ratio table or in the growth dictionary, classified by what
  \<open>pd.notna\<close> and \<open>float\<close> do with it: \<open>None\<close>; a missing number (\<open>NaN\<close>, for
  which \<open>pd.notna\<close> is false); a value that \<open>float\<close> converts to a finite number
  (a float, an integer, a numeric string); and any other object, on which the
  conversion raises.
\<close>

datatype pyval = PyNone | PyNaN | PyFloat real | PyObj

datatype py_error = AttributeError | IndexError | KeyError | TypeError | ValueError

text \<open>What an expression over a table evaluates to: a scalar, a Series or a sub-frame.\<close>

datatype pandas_val = Scalar pyval | Series "pyval list" | Frame "pyval list list"

datatype label = StrLabel string | IntLabel int

record dataframe =
  df_index :: "label list"
  df_columns :: "label list"
  df_values :: "nat \<Rightarrow> nat \<Rightarrow> pyval"

text \<open>\<open>df.empty\<close>: one of the two axes has length zero.\<close>

definition df_empty :: "dataframe \<Rightarrow> bool" where
  "df_empty df = (df_index df = [] \<or> df_columns df = [])"

definition positions :: "label list \<Rightarrow> string \<Rightarrow> nat list" where
  "positions labels name = filter (\<lambda>i. labels ! i = StrLabel name) [0..<length labels]"

definition df_row :: "dataframe \<Rightarrow> nat \<Rightarrow> pyval list" where
  "df_row df i = map (df_values df i) [0..<length (df_columns df)]"

definition df_col :: "dataframe \<Rightarrow> nat \<Rightarrow> pyval list" where
  "df_col df j = map (\<lambda>i. df_values df i j) [0..<length (df_index df)]"

text \<open>
  \<open>df.loc[name]\<close>: the row as a Series when the label occurs once in the index, a
  sub-frame of the matching rows when it occurs several times, \<open>KeyError\<close> otherwise.
\<close>

definition df_loc :: "dataframe \<Rightarrow> string \<Rightarrow> py_error + pandas_val" where
  "df_loc df name =
     (case positions (df_index df) name of
        [] \<Rightarrow> Inl KeyError
      | [i] \<Rightarrow> Inr (Series (df_row df i))
      | i # k # ks \<Rightarrow> Inr (Frame (map (df_row df) (i # k # ks))))"

text \<open>\<open>df[name]\<close>: the column as a Series, or a sub-frame for a repeated column label.\<close>

definition df_getitem :: "dataframe \<Rightarrow> string \<Rightarrow> py_error + pandas_val" where
  "df_getitem df name =
     (case positions (df_columns df) name of
        [] \<Rightarrow> Inl KeyError
      | [j] \<Rightarrow> Inr (Series (df_col df j))
      | j # k # ks \<Rightarrow>
          Inr (Frame (map (\<lambda>i. map (df_values df i) (j # k # ks)) [0..<length (df_index df)])))"

text \<open>\<open>val.iloc[0]\<close>: the first element of a Series, the first row of a frame.\<close>

fun iloc0 :: "pandas_val \<Rightarrow> py_error + pandas_val" where
  "iloc0 (Series []) = Inl IndexError"
| "iloc0 (Series (x # xs)) = Inr (Scalar x)"
| "iloc0 (Frame []) = Inl IndexError"
| "iloc0 (Frame (r # rs)) = Inr (Series r)"
| "iloc0 (Scalar v) = Inl AttributeError"

text \<open>The caller's default (\<open>None\<close> or a float) seen as a Python value.\<close>

fun of_default :: "real option \<Rightarrow> pandas_val" where
  "of_default None = Scalar PyNone"
| "of_default (Some d) = Scalar (PyFloat d)"

text \<open>
  The conditional expression \<open>float(val) if pd.notna(val) else default\<close>.  On a Series
  or a frame \<open>pd.notna\<close> is elementwise and its truth value raises \<open>ValueError\<close>.
\<close>

fun coerce :: "pandas_val \<Rightarrow> real option \<Rightarrow> py_error + real option" where
  "coerce (Scalar PyNone) dflt = Inr dflt"
| "coerce (Scalar PyNaN) dflt = Inr dflt"
| "coerce (Scalar (PyFloat r)) dflt = Inr (Some r)"
| "coerce (Scalar PyObj) dflt = Inl ValueError"
| "coerce (Series xs) dflt = Inl ValueError"
| "coerce (Frame rs) dflt = Inl ValueError"

subsection \<open>The generator object\<close>

text \<open>
  The value stored under \<open>'ratios'\<close>: \<open>None\<close>, a DataFrame, or an object without the
  attribute \<open>empty\<close>.  The value stored under \<open>'growth_rates'\<close>: a dictionary, or an
  object without the method \<open>get\<close> (\<open>None\<close> among them).
\<close>

datatype ratios_src = RatiosNone | RatiosFrame dataframe | RatiosOther

datatype growth_src = GrowthDict "string \<rightharpoonup> pyval" | GrowthOther

text \<open>The input dictionary \<open>financials\<close>; a field is \<open>None\<close> when its key is absent.\<close>

record fin_dict =
  fin_ticker :: "string option"
  fin_company_name :: "string option"
  fin_ratios :: "ratios_src option"
  fin_growth_rates :: "growth_src option"
  fin_market_data :: "(string \<rightharpoonup> pyval) option"

record generator =
  financials :: fin_dict
  ticker :: string
  company_name :: string
  ratios :: ratios_src
  growth_rates :: growth_src
  market_data :: "string \<rightharpoonup> pyval"

definition empty_frame :: dataframe where
  "empty_frame = \<lparr>df_index = [], df_columns = [], df_values = (\<lambda>i j. PyNone)\<rparr>"

definition init :: "fin_dict \<Rightarrow> generator" where
  "init fin =
     \<lparr>financials = fin,
      ticker = (case fin_ticker fin of None \<Rightarrow> ''N/A'' | Some t \<Rightarrow> t),
      company_name = (case fin_company_name fin of None \<Rightarrow> ''Unknown Company'' | Some c \<Rightarrow> c),
      ratios = (case fin_ratios fin of None \<Rightarrow> RatiosFrame empty_frame | Some r \<Rightarrow> r),
      growth_rates = (case fin_growth_rates fin of None \<Rightarrow> GrowthDict Map.empty | Some g \<Rightarrow> g),
      market_data = (case fin_market_data fin of None \<Rightarrow> Map.empty | Some m \<Rightarrow> m)\<rparr>"

subsection \<open>The ratio accessors\<close>

text \<open>The body of the \<open>try\<close> block of \<open>_get_ratio\<close>.\<close>

definition get_ratio_body :: "generator \<Rightarrow> string \<Rightarrow> real option \<Rightarrow> py_error + real option" where
  "get_ratio_body self name dflt =
     (case ratios self of
        RatiosNone \<Rightarrow> Inr dflt
      | RatiosOther \<Rightarrow> Inl AttributeError
      | RatiosFrame df \<Rightarrow>
          if df_empty df then Inr dflt
          else if StrLabel name \<in> set (df_index df) then
            (case df_loc df name of
               Inl e \<Rightarrow> Inl e
             | Inr (Series xs) \<Rightarrow>
                 if length xs > 0 then
                   (case iloc0 (Series xs) of Inl e \<Rightarrow> Inl e | Inr val \<Rightarrow> coerce val dflt)
                 else coerce (of_default dflt) dflt
             | Inr val \<Rightarrow> coerce val dflt)
          else if StrLabel name \<in> set (df_columns df) then
            (if length (df_index df) > 0 then
               (case df_getitem df name of
                  Inl e \<Rightarrow> Inl e
                | Inr col \<Rightarrow> (case iloc0 col of Inl e \<Rightarrow> Inl e | Inr val \<Rightarrow> coerce val dflt))
             else coerce (of_default dflt) dflt)
          else Inr dflt)"

text \<open>\<open>_get_ratio\<close>: the body under \<open>try\<close>, with the bare \<open>except\<close> returning the default.\<close>

definition get_ratio :: "generator \<Rightarrow> string \<Rightarrow> real option \<Rightarrow> real option" where
  "get_ratio self name dflt =
     (case get_ratio_body self name dflt of Inl e \<Rightarrow> dflt | Inr v \<Rightarrow> v)"

definition get_growth_rate_body :: "generator \<Rightarrow> string \<Rightarrow> real option \<Rightarrow> py_error + real option" where
  "get_growth_rate_body self name dflt =
     (case growth_rates self of
        GrowthOther \<Rightarrow> Inl AttributeError
      | GrowthDict d \<Rightarrow>
          (let val = (case d name of None \<Rightarrow> of_default dflt | Some v \<Rightarrow> Scalar v)
           in coerce val dflt))"

definition get_growth_rate :: "generator \<Rightarrow> string \<Rightarrow> real option \<Rightarrow> real option" where
  "get_growth_rate self name dflt =
     (case get_growth_rate_body self name dflt of Inl e \<Rightarrow> dflt | Inr v \<Rightarrow> v)"

subsection \<open>Fixed-point formatting\<close>

text \<open>
  The format specifications \<open>:.1f\<close> and \<open>:.2f\<close> of the f-strings: the value rounded
  to \<open>p\<close> decimals, ties to the even digit, printed with a minus sign when negative.
\<close>

definition digit_char :: "nat \<Rightarrow> char" where
  "digit_char d = ''0123456789'' ! d"

fun nat_digits :: "nat \<Rightarrow> string" where
  "nat_digits n =
     (if n < 10 then [digit_char n] else nat_digits (n div 10) @ [digit_char (n mod 10)])"

declare nat_digits.simps [simp del]

definition round_half_even :: "real \<Rightarrow> int" where
  "round_half_even y =
     (let f = \<lfloor>y\<rfloor>; r = y - of_int f
      in if r < 1 / 2 then f else if r > 1 / 2 then f + 1 else if even f then f else f + 1)"

definition format_fixed :: "nat \<Rightarrow> real \<Rightarrow> string" where
  "format_fixed p x =
     (let n = nat (round_half_even (\<bar>x\<bar> * 10 ^ p));
          frac = nat_digits (n mod 10 ^ p)
      in (if x < 0 then ''-'' else []) @ nat_digits (n div 10 ^ p) @ ''.'' @
         replicate (p - length frac) (CHR ''0'') @ frac)"

subsection \<open>Floats\<close>

text \<open>
  A float is a finite binary64 number, given by its value, an infinity, or not a
  number.  \<open>to_float\<close> rounds a real number to the nearest float, ties to the even
  significand: a number of binary exponent \<open>e\<close> is rounded to a multiple of
  \<open>2 ^ (e - 52)\<close>, or of \<open>2 ^ - 1074\<close> below the normal range, and a result
  of \<open>2 ^ 1024\<close> or more is an infinity.  The sign of a zero is not kept.
\<close>

datatype pyfloat = Fin real | PosInf | NegInf | NaN

fun bit_length :: "nat \<Rightarrow> nat" where
  "bit_length n = (if n = 0 then 0 else Suc (bit_length (n div 2)))"

declare bit_length.simps [simp del]

text \<open>The binary exponent of a positive number: \<open>2 ^ e \<le> x < 2 ^ (e + 1)\<close>.\<close>

definition exponent2 :: "real \<Rightarrow> int" where
  "exponent2 x =
     (if 1 \<le> x then int (bit_length (nat \<lfloor>x\<rfloor>)) - 1
      else - int (bit_length (nat (\<lceil>1 / x\<rceil> - 1))))"

definition scale2 :: "int \<Rightarrow> real \<Rightarrow> real" where
  "scale2 k x = (if 0 \<le> k then x * 2 ^ nat k else x / 2 ^ nat (- k))"

definition to_float :: "real \<Rightarrow> pyfloat" where
  "to_float x =
     (if x = 0 then Fin 0
      else let q = max (exponent2 \<bar>x\<bar>) (- 1022) - 52;
               m = scale2 q (of_int (round_half_even (scale2 (- q) \<bar>x\<bar>)))
           in if 2 ^ 1024 \<le> m then (if 0 < x then PosInf else NegInf)
              else Fin (if 0 < x then m else - m))"

fun float_negative :: "pyfloat \<Rightarrow> bool" where
  "float_negative (Fin a) = (a < 0)"
| "float_negative NegInf = True"
| "float_negative PosInf = False"
| "float_negative NaN = False"

text \<open>The product of two floats, \<open>x * y\<close> in the code.\<close>

definition float_mul :: "pyfloat \<Rightarrow> pyfloat \<Rightarrow> pyfloat" where
  "float_mul x y =
     (case (x, y) of
        (Fin a, Fin b) \<Rightarrow> to_float (a * b)
      | _ \<Rightarrow>
          if x = NaN \<or> y = NaN \<or> x = Fin 0 \<or> y = Fin 0 then NaN
          else if float_negative x \<noteq> float_negative y then NegInf else PosInf)"

text \<open>A float under the format specification \<open>:.pf\<close>.\<close>

fun format_float :: "nat \<Rightarrow> pyfloat \<Rightarrow> string" where
  "format_float p (Fin v) = format_fixed p v"
| "format_float p PosInf = ''inf''"
| "format_float p NegInf = ''-inf''"
| "format_float p NaN = ''nan''"

subsection \<open>Bull case\<close>

definition bull_roe_msg :: "real \<Rightarrow> string" where
  "bull_roe_msg roe =
     ''Strong profitability: ROE of '' @ format_float 1 (float_mul (to_float roe) (to_float 100)) @
     ''%, indicating efficient use of shareholder capital''"

definition bull_gross_margin_msg :: "real \<Rightarrow> string" where
  "bull_gross_margin_msg gross_margin =
     ''Healthy margins: Gross margin of '' @ format_float 1 (float_mul (to_float gross_margin) (to_float 100)) @
     ''%, demonstrating pricing power''"

definition bull_op_margin_msg :: "real \<Rightarrow> string" where
  "bull_op_margin_msg op_margin =
     ''Strong operating efficiency: Operating margin of '' @
     format_float 1 (float_mul (to_float op_margin) (to_float 100)) @ ''%''"

definition bull_current_ratio_msg :: "real \<Rightarrow> string" where
  "bull_current_ratio_msg current_ratio =
     ''Solid liquidity: Current ratio of '' @ format_float 2 (to_float current_ratio) @
     ''x provides financial flexibility''"

definition bull_de_ratio_msg :: "real \<Rightarrow> string" where
  "bull_de_ratio_msg de_ratio =
     ''Conservative balance sheet: Debt/Equity of '' @ format_float 2 (to_float de_ratio) @
     ''x indicates low financial risk''"

definition bull_rev_cagr_msg :: "real \<Rightarrow> string" where
  "bull_rev_cagr_msg rev_cagr =
     ''Consistent growth: Revenue CAGR of '' @ format_float 1 (float_mul (to_float rev_cagr) (to_float 100)) @
     ''% demonstrates market expansion''"

definition bull_cash_flow_msg :: string where
  "bull_cash_flow_msg = ''Excellent cash generation: Operating cash flow exceeds net income''"

definition bull_fallback_points :: "string list" where
  "bull_fallback_points =
     [''Established market position with brand recognition'',
      ''Diversified revenue streams reduce concentration risk'',
      ''Experienced management team with track record'']"

text \<open>
  One pass of the \<open>for\<close> loop over the fallback list: a fallback is appended when it is
  not yet in the list and the list has fewer than three points.
\<close>

definition pad_pass :: "string list \<Rightarrow> string list \<Rightarrow> string list" where
  "pad_pass fallback_points points =
     foldl (\<lambda>pts fallback.
              if fallback \<notin> set pts \<and> length pts < 3 then pts @ [fallback] else pts)
       points fallback_points"

text \<open>The \<open>while\<close> loop around it; \<open>None\<close> is a loop that never ends.\<close>

partial_function (option) pad_loop :: "string list \<Rightarrow> string list \<Rightarrow> string list option" where
  "pad_loop fallback_points points =
     (if length points < 3 then pad_loop fallback_points (pad_pass fallback_points points)
      else Some points)"

text \<open>
  The statement \<open>if v is not None and P(v): points.append(msg(v))\<close>, which every
  check of the bull case, the bear case and the red-flag list has the shape of.
\<close>

definition append_when ::
  "real option \<Rightarrow> (real \<Rightarrow> bool) \<Rightarrow> (real \<Rightarrow> string) \<Rightarrow> string list \<Rightarrow> string list" where
  "append_when v P msg points =
     (case v of None \<Rightarrow> points | Some x \<Rightarrow> if P x then points @ [msg x] else points)"

text \<open>The list \<open>bull_points\<close> when the seven checks are done, before padding.\<close>

definition bull_signals :: "generator \<Rightarrow> string list" where
  "bull_signals self =
     (let bull_points = [];
          roe = get_ratio self ''ROE'' None;
          bull_points = append_when roe (\<lambda>roe. roe > 0.15) bull_roe_msg bull_points;
          gross_margin = get_ratio self ''Gross_Margin'' None;
          bull_points =
            append_when gross_margin (\<lambda>gross_margin. gross_margin > 0.30)
              bull_gross_margin_msg bull_points;
          op_margin = get_ratio self ''Operating_Margin'' None;
          bull_points =
            append_when op_margin (\<lambda>op_margin. op_margin > 0.15) bull_op_margin_msg bull_points;
          current_ratio = get_ratio self ''Current_Ratio'' None;
          bull_points =
            append_when current_ratio (\<lambda>current_ratio. current_ratio > 1.5)
              bull_current_ratio_msg bull_points;
          de_ratio = get_ratio self ''Debt_to_Equity'' None;
          bull_points =
            append_when de_ratio (\<lambda>de_ratio. de_ratio < 0.5) bull_de_ratio_msg bull_points;
          rev_cagr = get_growth_rate self ''Total_Revenue_CAGR'' None;
          bull_points =
            append_when rev_cagr (\<lambda>rev_cagr. rev_cagr > 0.10) bull_rev_cagr_msg bull_points;
          net_income = get_ratio self ''Net_Income'' None;
          ocf = get_ratio self ''Operating_Cash_Flow'' None;
          bull_points =
            append_when net_income
              (\<lambda>net_income.
                 case ocf of None \<Rightarrow> False
                 | Some ocf \<Rightarrow> ocf > net_income \<and> net_income > 0)
              (\<lambda>net_income. bull_cash_flow_msg) bull_points
      in bull_points)"

definition generate_bull_case :: "generator \<Rightarrow> string list option" where
  "generate_bull_case self =
     map_option (take 3) (pad_loop bull_fallback_points (bull_signals self))"

subsection \<open>Bear case\<close>

definition bear_pe_ratio_msg :: "real \<Rightarrow> string" where
  "bear_pe_ratio_msg pe_ratio =
     ''Premium valuation: P/E ratio of '' @ format_float 1 (to_float pe_ratio) @
     ''x may limit upside potential''"

definition bear_de_ratio_msg :: "real \<Rightarrow> string" where
  "bear_de_ratio_msg de_ratio =
     ''High leverage risk: Debt/Equity of '' @ format_float 2 (to_float de_ratio) @
     ''x increases financial vulnerability''"

definition bear_rev_cagr_msg :: "real \<Rightarrow> string" where
  "bear_rev_cagr_msg rev_cagr =
     (if rev_cagr < 0
      then ''Revenue decline: '' @ format_float 1 (float_mul (to_float rev_cagr) (to_float 100)) @
           ''% CAGR signals market share loss''
      else ''Slowing growth: '' @ format_float 1 (float_mul (to_float rev_cagr) (to_float 100)) @
           ''% revenue CAGR suggests market maturation'')"

definition bear_op_margin_msg :: "real \<Rightarrow> string" where
  "bear_op_margin_msg op_margin =
     ''Thin margins: Operating margin of '' @ format_float 1 (float_mul (to_float op_margin) (to_float 100)) @
     ''% leaves little room for error''"

definition bear_current_ratio_msg :: "real \<Rightarrow> string" where
  "bear_current_ratio_msg current_ratio =
     ''Liquidity concerns: Current ratio of '' @ format_float 2 (to_float current_ratio) @
     ''x may strain operations''"

definition bear_roe_msg :: "real \<Rightarrow> string" where
  "bear_roe_msg roe =
     (if roe < 0
      then ''Negative profitability: ROE of '' @ format_float 1 (float_mul (to_float roe) (to_float 100)) @
           ''% indicates losses''
      else ''Low returns: ROE of '' @ format_float 1 (float_mul (to_float roe) (to_float 100)) @
           ''% underperforms cost of equity'')"

definition bear_fallback_points :: "string list" where
  "bear_fallback_points =
     [''Competitive pressure may compress margins over time'',
      ''Macroeconomic sensitivity could impact near-term results'',
      ''Execution risk in strategic initiatives'']"

text \<open>The list \<open>bear_points\<close> when the six checks are done, before padding.\<close>

definition bear_signals :: "generator \<Rightarrow> string list" where
  "bear_signals self =
     (let bear_points = [];
          pe_ratio = get_ratio self ''PE_Ratio'' None;
          bear_points =
            append_when pe_ratio (\<lambda>pe_ratio. pe_ratio > 30) bear_pe_ratio_msg bear_points;
          de_ratio = get_ratio self ''Debt_to_Equity'' None;
          bear_points =
            append_when de_ratio (\<lambda>de_ratio. de_ratio > 1.5) bear_de_ratio_msg bear_points;
          rev_cagr = get_growth_rate self ''Total_Revenue_CAGR'' None;
          bear_points =
            append_when rev_cagr (\<lambda>rev_cagr. rev_cagr < 0.03) bear_rev_cagr_msg bear_points;
          op_margin = get_ratio self ''Operating_Margin'' None;
          bear_points =
            append_when op_margin (\<lambda>op_margin. op_margin < 0.05) bear_op_margin_msg bear_points;
          current_ratio = get_ratio self ''Current_Ratio'' None;
          bear_points =
            append_when current_ratio (\<lambda>current_ratio. current_ratio < 1.0)
              bear_current_ratio_msg bear_points;
          roe = get_ratio self ''ROE'' None;
          bear_points = append_when roe (\<lambda>roe. roe < 0.05) bear_roe_msg bear_points
      in bear_points)"

definition generate_bear_case :: "generator \<Rightarrow> string list option" where
  "generate_bear_case self =
     map_option (take 3) (pad_loop bear_fallback_points (bear_signals self))"

subsection \<open>Risk assessment\<close>

text \<open>
  Comparing a value that may be \<open>None\<close> with a number raises \<open>TypeError\<close> on
  \<open>None\<close>; \<open>and\<close> and \<open>or\<close> evaluate their right operand only when needed.
\<close>

definition py_cmp :: "(real \<Rightarrow> real \<Rightarrow> bool) \<Rightarrow> real option \<Rightarrow> real \<Rightarrow> py_error + bool" where
  "py_cmp rel v c = (case v of None \<Rightarrow> Inl TypeError | Some x \<Rightarrow> Inr (rel x c))"

definition py_and :: "py_error + bool \<Rightarrow> py_error + bool \<Rightarrow> py_error + bool" where
  "py_and a b = (case a of Inl e \<Rightarrow> Inl e | Inr False \<Rightarrow> Inr False | Inr True \<Rightarrow> b)"

definition py_or :: "py_error + bool \<Rightarrow> py_error + bool \<Rightarrow> py_error + bool" where
  "py_or a b = (case a of Inl e \<Rightarrow> Inl e | Inr True \<Rightarrow> Inr True | Inr False \<Rightarrow> b)"

definition financial_health_level :: "real option \<Rightarrow> real option \<Rightarrow> py_error + string" where
  "financial_health_level current_ratio de_ratio =
     (case py_and (py_cmp (\<ge>) current_ratio 1.5) (py_cmp (\<le>) de_ratio 0.5) of
        Inl e \<Rightarrow> Inl e
      | Inr True \<Rightarrow> Inr ''LOW''
      | Inr False \<Rightarrow>
          (case py_or (py_cmp (<) current_ratio 1.0) (py_cmp (>) de_ratio 2.0) of
             Inl e \<Rightarrow> Inl e
           | Inr True \<Rightarrow> Inr ''HIGH''
           | Inr False \<Rightarrow> Inr ''MODERATE''))"

definition valuation_level :: "real option \<Rightarrow> string" where
  "valuation_level pe_ratio =
     (case pe_ratio of
        Some pe_ratio \<Rightarrow>
          if pe_ratio < 20 then ''LOW'' else if pe_ratio > 40 then ''HIGH'' else ''MODERATE''
      | None \<Rightarrow> ''MODERATE'')"

definition growth_level :: "real option \<Rightarrow> string" where
  "growth_level rev_cagr =
     (case rev_cagr of
        Some rev_cagr \<Rightarrow>
          if rev_cagr > 0.10 then ''LOW'' else if rev_cagr < 0 then ''HIGH'' else ''MODERATE''
      | None \<Rightarrow> ''MODERATE'')"

definition liquidity_level :: "real option \<Rightarrow> py_error + string" where
  "liquidity_level current_ratio =
     (case py_cmp (\<ge>) current_ratio 2.0 of
        Inl e \<Rightarrow> Inl e
      | Inr True \<Rightarrow> Inr ''LOW''
      | Inr False \<Rightarrow>
          (case py_cmp (<) current_ratio 1.0 of
             Inl e \<Rightarrow> Inl e
           | Inr True \<Rightarrow> Inr ''HIGH''
           | Inr False \<Rightarrow> Inr ''MODERATE''))"

definition profitability_level :: "real option \<Rightarrow> real option \<Rightarrow> string" where
  "profitability_level roe op_margin =
     (case roe of
        Some roe \<Rightarrow>
          (case op_margin of
             Some op_margin \<Rightarrow>
               if roe > 0.15 \<and> op_margin > 0.15 then ''LOW''
               else if roe < 0 \<or> op_margin < 0.05 then ''HIGH''
               else ''MODERATE''
           | None \<Rightarrow> ''MODERATE'')
      | None \<Rightarrow> ''MODERATE'')"

definition assess_risks :: "generator \<Rightarrow> py_error + (string \<rightharpoonup> string)" where
  "assess_risks self =
     (let risks = Map.empty;
          current_ratio = get_ratio self ''Current_Ratio'' (Some 1.0);
          de_ratio = get_ratio self ''Debt_to_Equity'' (Some 1.0)
      in case financial_health_level current_ratio de_ratio of
           Inl e \<Rightarrow> Inl e
         | Inr level \<Rightarrow>
            (let risks = risks(''Financial Health'' \<mapsto> level);
                 pe_ratio = get_ratio self ''PE_Ratio'' (Some 20.0);
                 risks = risks(''Valuation'' \<mapsto> valuation_level pe_ratio);
                 rev_cagr = get_growth_rate self ''Total_Revenue_CAGR'' (Some 0.05);
                 risks = risks(''Growth'' \<mapsto> growth_level rev_cagr)
             in case liquidity_level current_ratio of
                  Inl e \<Rightarrow> Inl e
                | Inr level \<Rightarrow>
                   (let risks = risks(''Liquidity'' \<mapsto> level);
                        roe = get_ratio self ''ROE'' (Some 0.10);
                        op_margin = get_ratio self ''Operating_Margin'' (Some 0.10);
                        risks = risks(''Profitability'' \<mapsto> profitability_level roe op_margin)
                    in Inr risks)))"

subsection \<open>Red flags\<close>

definition red_roe_msg :: "real \<Rightarrow> string" where
  "red_roe_msg roe =
     ''Negative return on equity ('' @ format_float 1 (float_mul (to_float roe) (to_float 100)) @
     ''%) - company is destroying shareholder value''"

definition red_de_ratio_msg :: "real \<Rightarrow> string" where
  "red_de_ratio_msg de_ratio =
     ''High leverage ('' @ format_float 2 (to_float de_ratio) @ ''x D/E) - elevated bankruptcy risk''"

definition red_current_ratio_msg :: "real \<Rightarrow> string" where
  "red_current_ratio_msg current_ratio =
     ''Liquidity crisis (Current Ratio: '' @ format_float 2 (to_float current_ratio) @
     ''x) - may struggle to meet obligations''"

definition red_rev_cagr_msg :: "real \<Rightarrow> string" where
  "red_rev_cagr_msg rev_cagr =
     ''Significant revenue decline ('' @ format_float 1 (float_mul (to_float rev_cagr) (to_float 100)) @
     ''% CAGR) - business is shrinking''"

definition red_pe_ratio_msg :: "real \<Rightarrow> string" where
  "red_pe_ratio_msg pe_ratio =
     ''Extreme valuation (P/E: '' @ format_float 1 (to_float pe_ratio) @ ''x) - priced for perfection''"

text \<open>
  The success message.  It starts with three characters outside ASCII, written here
  as the seven bytes of their UTF-8 encoding.
\<close>

definition no_red_flags_msg :: string where
  "no_red_flags_msg =
     [CHR 0xE2, CHR 0x80, CHR 0x9A, CHR 0xC3, CHR 0xBA, CHR 0xC3, CHR 0x96] @
     '' No major red flags detected - fundamentals appear healthy''"

text \<open>The list \<open>red_flags\<close> when the five checks are done.\<close>

definition red_flag_signals :: "generator \<Rightarrow> string list" where
  "red_flag_signals self =
     (let red_flags = [];
          roe = get_ratio self ''ROE'' None;
          red_flags = append_when roe (\<lambda>roe. roe < 0) red_roe_msg red_flags;
          de_ratio = get_ratio self ''Debt_to_Equity'' None;
          red_flags = append_when de_ratio (\<lambda>de_ratio. de_ratio > 2.0) red_de_ratio_msg red_flags;
          current_ratio = get_ratio self ''Current_Ratio'' None;
          red_flags =
            append_when current_ratio (\<lambda>current_ratio. current_ratio < 0.8)
              red_current_ratio_msg red_flags;
          rev_cagr = get_growth_rate self ''Total_Revenue_CAGR'' None;
          red_flags =
            append_when rev_cagr (\<lambda>rev_cagr. rev_cagr < - 0.05) red_rev_cagr_msg red_flags;
          pe_ratio = get_ratio self ''PE_Ratio'' None;
          red_flags = append_when pe_ratio (\<lambda>pe_ratio. pe_ratio > 100) red_pe_ratio_msg red_flags
      in red_flags)"

definition detect_red_flags :: "generator \<Rightarrow> string list" where
  "detect_red_flags self =
     (let red_flags = red_flag_signals self;
          red_flags = (if red_flags = [] then red_flags @ [no_red_flags_msg] else red_flags)
      in red_flags)"

subsection \<open>Valuation range and key metrics\<close>

text \<open>
  The values of the dictionary returned are floats, the integers \<open>0\<close>, \<open>-20\<close> and
  \<open>25\<close> among them; \<open>base_case\<close> is the price as the accessor returned it.
\<close>

definition calculate_valuation_range :: "generator \<Rightarrow> (string \<rightharpoonup> pyfloat)" where
  "calculate_valuation_range self =
     (let current_price = get_ratio self ''Current_Price'' None
      in case current_price of
           None \<Rightarrow>
             [''bear_case'' \<mapsto> Fin 0, ''base_case'' \<mapsto> Fin 0, ''bull_case'' \<mapsto> Fin 0,
              ''bear_pct'' \<mapsto> Fin (- 20), ''bull_pct'' \<mapsto> Fin 25]
         | Some current_price \<Rightarrow>
             if current_price \<le> 0
             then [''bear_case'' \<mapsto> Fin 0, ''base_case'' \<mapsto> Fin 0, ''bull_case'' \<mapsto> Fin 0,
                   ''bear_pct'' \<mapsto> Fin (- 20), ''bull_pct'' \<mapsto> Fin 25]
             else [''bear_case'' \<mapsto> float_mul (to_float current_price) (to_float 0.80),
                   ''base_case'' \<mapsto> to_float current_price,
                   ''bull_case'' \<mapsto> float_mul (to_float current_price) (to_float 1.25),
                   ''bear_pct'' \<mapsto> Fin (- 20), ''bull_pct'' \<mapsto> Fin 25])"

definition get_key_metrics :: "generator \<Rightarrow> (string \<rightharpoonup> real option)" where
  "get_key_metrics self =
     [''Current Price'' \<mapsto> get_ratio self ''Current_Price'' None,
      ''P/E Ratio'' \<mapsto> get_ratio self ''PE_Ratio'' None,
      ''Market Cap'' \<mapsto> get_ratio self ''Market_Cap'' None,
      ''Revenue'' \<mapsto> get_ratio self ''Total_Revenue'' None,
      ''Net Income'' \<mapsto> get_ratio self ''Net_Income'' None,
      ''ROE'' \<mapsto> get_ratio self ''ROE'' None,
      ''Debt/Equity'' \<mapsto> get_ratio self ''Debt_to_Equity'' None,
      ''Current Ratio'' \<mapsto> get_ratio self ''Current_Ratio'' None]"

subsection \<open>Calling a judgment method on the object\<close>

text \<open>
  A call seen as a function: it takes the object and returns the method's result
  together with the object.  The calls on a store of objects, further down, are the ones
  that show what a call changes.
\<close>

datatype method_name =
  Generate_bull_case | Generate_bear_case | Assess_risks | Detect_red_flags
| Calculate_valuation_range | Get_key_metrics

datatype outcome =
  Points "string list option"
| Risks "py_error + (string \<rightharpoonup> string)"
| Flags "string list"
| Valuation "string \<rightharpoonup> pyfloat"
| Metrics "string \<rightharpoonup> real option"

fun call :: "method_name \<Rightarrow> generator \<Rightarrow> outcome \<times> generator" where
  "call Generate_bull_case self = (Points (generate_bull_case self), self)"
| "call Generate_bear_case self = (Points (generate_bear_case self), self)"
| "call Assess_risks self = (Risks (assess_risks self), self)"
| "call Detect_red_flags self = (Flags (detect_red_flags self), self)"
| "call Calculate_valuation_range self = (Valuation (calculate_valuation_range self), self)"
| "call Get_key_metrics self = (Metrics (get_key_metrics self), self)"

text \<open>The call returns: the loop has ended and no exception has been raised.\<close>

fun returned :: "outcome \<Rightarrow> bool" where
  "returned (Points r) = (r \<noteq> None)"
| "returned (Risks r) = (case r of Inl e \<Rightarrow> False | Inr m \<Rightarrow> True)"
| "returned (Flags r) = True"
| "returned (Valuation r) = True"
| "returned (Metrics r) = True"

subsection \<open>The methods on a store of objects\<close>

text \<open>
  The same methods once more, with the objects they create and change made explicit.
  A store is the list of the objects allocated so far, and the address of an object is
  its position.  The generator object lies in the store together with whatever else the
  program holds; \<open>bull_points = []\<close>, \<open>risks = {}\<close> and a dictionary display allocate
  a new object; \<open>append\<close> and an item assignment change the object at an address.
\<close>

datatype obj =
  Instance generator
| ListObj "string list"
| RisksObj "string \<rightharpoonup> string"
| ValuationObj "string \<rightharpoonup> pyfloat"
| MetricsObj "string \<rightharpoonup> real option"

type_synonym addr = nat

type_synonym store = "obj list"

definition lookup :: "store \<Rightarrow> addr \<Rightarrow> obj option" where
  "lookup h a = (if a < length h then Some (h ! a) else None)"

definition alloc :: "obj \<Rightarrow> store \<Rightarrow> addr \<times> store" where
  "alloc ob h = (length h, h @ [ob])"

text \<open>\<open>points.append(s)\<close> and \<open>risks[k] = v\<close> on the objects at an address.\<close>

definition list_append :: "addr \<Rightarrow> string \<Rightarrow> store \<Rightarrow> store" where
  "list_append a s h =
     (case lookup h a of Some (ListObj xs) \<Rightarrow> h[a := ListObj (xs @ [s])] | _ \<Rightarrow> h)"

definition list_value :: "store \<Rightarrow> addr \<Rightarrow> string list" where
  "list_value h a = (case lookup h a of Some (ListObj xs) \<Rightarrow> xs | _ \<Rightarrow> [])"

definition dict_store :: "addr \<Rightarrow> string \<Rightarrow> string \<Rightarrow> store \<Rightarrow> store" where
  "dict_store a k v h =
     (case lookup h a of Some (RisksObj m) \<Rightarrow> h[a := RisksObj (m(k \<mapsto> v))] | _ \<Rightarrow> h)"

definition dict_value :: "store \<Rightarrow> addr \<Rightarrow> (string \<rightharpoonup> string)" where
  "dict_value h a = (case lookup h a of Some (RisksObj m) \<Rightarrow> m | _ \<Rightarrow> Map.empty)"

text \<open>
  The accessors read the attributes of the object at \<open>self\<close>; an address that holds no
  generator raises inside the \<open>try\<close> block, which gives the default.
\<close>

definition get_ratio_st :: "addr \<Rightarrow> string \<Rightarrow> real option \<Rightarrow> store \<Rightarrow> real option" where
  "get_ratio_st self name dflt h =
     (case lookup h self of Some (Instance g) \<Rightarrow> get_ratio g name dflt | _ \<Rightarrow> dflt)"

definition get_growth_rate_st :: "addr \<Rightarrow> string \<Rightarrow> real option \<Rightarrow> store \<Rightarrow> real option" where
  "get_growth_rate_st self name dflt h =
     (case lookup h self of Some (Instance g) \<Rightarrow> get_growth_rate g name dflt | _ \<Rightarrow> dflt)"

definition append_when_st ::
  "real option \<Rightarrow> (real \<Rightarrow> bool) \<Rightarrow> (real \<Rightarrow> string) \<Rightarrow> addr \<Rightarrow> store \<Rightarrow> store" where
  "append_when_st v P msg points h =
     (case v of None \<Rightarrow> h | Some x \<Rightarrow> if P x then list_append points (msg x) h else h)"

definition pad_pass_st :: "string list \<Rightarrow> addr \<Rightarrow> store \<Rightarrow> store" where
  "pad_pass_st fallback_points points h =
     foldl (\<lambda>h fallback.
              if fallback \<notin> set (list_value h points) \<and> length (list_value h points) < 3
              then list_append points fallback h else h)
       h fallback_points"

partial_function (option) pad_loop_st :: "string list \<Rightarrow> addr \<Rightarrow> store \<Rightarrow> store option" where
  "pad_loop_st fallback_points points h =
     (if length (list_value h points) < 3
      then pad_loop_st fallback_points points (pad_pass_st fallback_points points h)
      else Some h)"

definition bull_signals_st :: "addr \<Rightarrow> store \<Rightarrow> addr \<times> store" where
  "bull_signals_st self h =
     (let (bull_points, h) = alloc (ListObj []) h;
          roe = get_ratio_st self ''ROE'' None h;
          h = append_when_st roe (\<lambda>roe. roe > 0.15) bull_roe_msg bull_points h;
          gross_margin = get_ratio_st self ''Gross_Margin'' None h;
          h = append_when_st gross_margin (\<lambda>gross_margin. gross_margin > 0.30)
                bull_gross_margin_msg bull_points h;
          op_margin = get_ratio_st self ''Operating_Margin'' None h;
          h = append_when_st op_margin (\<lambda>op_margin. op_margin > 0.15)
                bull_op_margin_msg bull_points h;
          current_ratio = get_ratio_st self ''Current_Ratio'' None h;
          h = append_when_st current_ratio (\<lambda>current_ratio. current_ratio > 1.5)
                bull_current_ratio_msg bull_points h;
          de_ratio = get_ratio_st self ''Debt_to_Equity'' None h;
          h = append_when_st de_ratio (\<lambda>de_ratio. de_ratio < 0.5)
                bull_de_ratio_msg bull_points h;
          rev_cagr = get_growth_rate_st self ''Total_Revenue_CAGR'' None h;
          h = append_when_st rev_cagr (\<lambda>rev_cagr. rev_cagr > 0.10)
                bull_rev_cagr_msg bull_points h;
          net_income = get_ratio_st self ''Net_Income'' None h;
          ocf = get_ratio_st self ''Operating_Cash_Flow'' None h;
          h = append_when_st net_income
                (\<lambda>net_income.
                   case ocf of None \<Rightarrow> False
                   | Some ocf \<Rightarrow> ocf > net_income \<and> net_income > 0)
                (\<lambda>net_income. bull_cash_flow_msg) bull_points h
      in (bull_points, h))"

definition generate_bull_case_st :: "addr \<Rightarrow> store \<Rightarrow> (string list \<times> store) option" where
  "generate_bull_case_st self h =
     (let (bull_points, h) = bull_signals_st self h
      in case pad_loop_st bull_fallback_points bull_points h of
           None \<Rightarrow> None
         | Some h \<Rightarrow> Some (take 3 (list_value h bull_points), h))"

definition bear_signals_st :: "addr \<Rightarrow> store \<Rightarrow> addr \<times> store" where
  "bear_signals_st self h =
     (let (bear_points, h) = alloc (ListObj []) h;
          pe_ratio = get_ratio_st self ''PE_Ratio'' None h;
          h = append_when_st pe_ratio (\<lambda>pe_ratio. pe_ratio > 30) bear_pe_ratio_msg bear_points h;
          de_ratio = get_ratio_st self ''Debt_to_Equity'' None h;
          h = append_when_st de_ratio (\<lambda>de_ratio. de_ratio > 1.5) bear_de_ratio_msg bear_points h;
          rev_cagr = get_growth_rate_st self ''Total_Revenue_CAGR'' None h;
          h = append_when_st rev_cagr (\<lambda>rev_cagr. rev_cagr < 0.03) bear_rev_cagr_msg bear_points h;
          op_margin = get_ratio_st self ''Operating_Margin'' None h;
          h = append_when_st op_margin (\<lambda>op_margin. op_margin < 0.05)
                bear_op_margin_msg bear_points h;
          current_ratio = get_ratio_st self ''Current_Ratio'' None h;
          h = append_when_st current_ratio (\<lambda>current_ratio. current_ratio < 1.0)
                bear_current_ratio_msg bear_points h;
          roe = get_ratio_st self ''ROE'' None h;
          h = append_when_st roe (\<lambda>roe. roe < 0.05) bear_roe_msg bear_points h
      in (bear_points, h))"

definition generate_bear_case_st :: "addr \<Rightarrow> store \<Rightarrow> (string list \<times> store) option" where
  "generate_bear_case_st self h =
     (let (bear_points, h) = bear_signals_st self h
      in case pad_loop_st bear_fallback_points bear_points h of
           None \<Rightarrow> None
         | Some h \<Rightarrow> Some (take 3 (list_value h bear_points), h))"

definition assess_risks_st :: "addr \<Rightarrow> store \<Rightarrow> (py_error + (string \<rightharpoonup> string)) \<times> store" where
  "assess_risks_st self h =
     (let (risks, h) = alloc (RisksObj Map.empty) h;
          current_ratio = get_ratio_st self ''Current_Ratio'' (Some 1.0) h;
          de_ratio = get_ratio_st self ''Debt_to_Equity'' (Some 1.0) h
      in case financial_health_level current_ratio de_ratio of
           Inl e \<Rightarrow> (Inl e, h)
         | Inr level \<Rightarrow>
            (let h = dict_store risks ''Financial Health'' level h;
                 pe_ratio = get_ratio_st self ''PE_Ratio'' (Some 20.0) h;
                 h = dict_store risks ''Valuation'' (valuation_level pe_ratio) h;
                 rev_cagr = get_growth_rate_st self ''Total_Revenue_CAGR'' (Some 0.05) h;
                 h = dict_store risks ''Growth'' (growth_level rev_cagr) h
             in case liquidity_level current_ratio of
                  Inl e \<Rightarrow> (Inl e, h)
                | Inr level \<Rightarrow>
                   (let h = dict_store risks ''Liquidity'' level h;
                        roe = get_ratio_st self ''ROE'' (Some 0.10) h;
                        op_margin = get_ratio_st self ''Operating_Margin'' (Some 0.10) h;
                        h = dict_store risks ''Profitability''
                              (profitability_level roe op_margin) h
                    in (Inr (dict_value h risks), h))))"

definition detect_red_flags_st :: "addr \<Rightarrow> store \<Rightarrow> string list \<times> store" where
  "detect_red_flags_st self h =
     (let (red_flags, h) = alloc (ListObj []) h;
          roe = get_ratio_st self ''ROE'' None h;
          h = append_when_st roe (\<lambda>roe. roe < 0) red_roe_msg red_flags h;
          de_ratio = get_ratio_st self ''Debt_to_Equity'' None h;
          h = append_when_st de_ratio (\<lambda>de_ratio. de_ratio > 2.0) red_de_ratio_msg red_flags h;
          current_ratio = get_ratio_st self ''Current_Ratio'' None h;
          h = append_when_st current_ratio (\<lambda>current_ratio. current_ratio < 0.8)
                red_current_ratio_msg red_flags h;
          rev_cagr = get_growth_rate_st self ''Total_Revenue_CAGR'' None h;
          h = append_when_st rev_cagr (\<lambda>rev_cagr. rev_cagr < - 0.05) red_rev_cagr_msg red_flags h;
          pe_ratio = get_ratio_st self ''PE_Ratio'' None h;
          h = append_when_st pe_ratio (\<lambda>pe_ratio. pe_ratio > 100) red_pe_ratio_msg red_flags h;
          h = (if list_value h red_flags = [] then list_append red_flags no_red_flags_msg h else h)
      in (list_value h red_flags, h))"

definition calculate_valuation_range_st :: "addr \<Rightarrow> store \<Rightarrow> (string \<rightharpoonup> pyfloat) \<times> store" where
  "calculate_valuation_range_st self h =
     (let current_price = get_ratio_st self ''Current_Price'' None h;
          result =
            (case current_price of
               None \<Rightarrow>
                 [''bear_case'' \<mapsto> Fin 0, ''base_case'' \<mapsto> Fin 0, ''bull_case'' \<mapsto> Fin 0,
                  ''bear_pct'' \<mapsto> Fin (- 20), ''bull_pct'' \<mapsto> Fin 25]
             | Some current_price \<Rightarrow>
                 if current_price \<le> 0
                 then [''bear_case'' \<mapsto> Fin 0, ''base_case'' \<mapsto> Fin 0, ''bull_case'' \<mapsto> Fin 0,
                       ''bear_pct'' \<mapsto> Fin (- 20), ''bull_pct'' \<mapsto> Fin 25]
                 else [''bear_case'' \<mapsto> float_mul (to_float current_price) (to_float 0.80),
                       ''base_case'' \<mapsto> to_float current_price,
                       ''bull_case'' \<mapsto> float_mul (to_float current_price) (to_float 1.25),
                       ''bear_pct'' \<mapsto> Fin (- 20), ''bull_pct'' \<mapsto> Fin 25]);
          (a, h) = alloc (ValuationObj result) h
      in (result, h))"

definition get_key_metrics_st :: "addr \<Rightarrow> store \<Rightarrow> (string \<rightharpoonup> real option) \<times> store" where
  "get_key_metrics_st self h =
     (let result =
            [''Current Price'' \<mapsto> get_ratio_st self ''Current_Price'' None h,
             ''P/E Ratio'' \<mapsto> get_ratio_st self ''PE_Ratio'' None h,
             ''Market Cap'' \<mapsto> get_ratio_st self ''Market_Cap'' None h,
             ''Revenue'' \<mapsto> get_ratio_st self ''Total_Revenue'' None h,
             ''Net Income'' \<mapsto> get_ratio_st self ''Net_Income'' None h,
             ''ROE'' \<mapsto> get_ratio_st self ''ROE'' None h,
             ''Debt/Equity'' \<mapsto> get_ratio_st self ''Debt_to_Equity'' None h,
             ''Current Ratio'' \<mapsto> get_ratio_st self ''Current_Ratio'' None h];
          (a, h) = alloc (MetricsObj result) h
      in (result, h))"

text \<open>
  A call of a method on the object at \<open>self\<close>: the result and the store the call
  leaves, or \<open>None\<close> when the call does not return.
\<close>

fun call_st :: "method_name \<Rightarrow> addr \<Rightarrow> store \<Rightarrow> (outcome \<times> store) option" where
  "call_st Generate_bull_case self h =
     map_option (\<lambda>(r, h). (Points (Some r), h)) (generate_bull_case_st self h)"
| "call_st Generate_bear_case self h =
     map_option (\<lambda>(r, h). (Points (Some r), h)) (generate_bear_case_st self h)"
| "call_st Assess_risks self h = Some (let (r, h) = assess_risks_st self h in (Risks r, h))"
| "call_st Detect_red_flags self h = Some (let (r, h) = detect_red_flags_st self h in (Flags r, h))"
| "call_st Calculate_valuation_range self h =
     Some (let (r, h) = calculate_valuation_range_st self h in (Valuation r, h))"
| "call_st Get_key_metrics self h =
     Some (let (r, h) = get_key_metrics_st self h in (Metrics r, h))"

subsection \<open>The decision tables of the specification\<close>

text \<open>
  The specification describes the bull case, the bear case and the red-flag list as an
  ordered table of rules, each a value that may be absent, a condition on it and a
  message; the messages of the rules that fire are listed in the order of the table.
\<close>

type_synonym rule = "real option \<times> (real \<Rightarrow> bool) \<times> (real \<Rightarrow> string)"

fun fired :: "rule \<Rightarrow> string list" where
  "fired (None, P, msg) = []"
| "fired (Some x, P, msg) = (if P x then [msg x] else [])"

definition fired_messages :: "rule list \<Rightarrow> string list" where
  "fired_messages rules = concat (map fired rules)"

definition bull_rules :: "generator \<Rightarrow> rule list" where
  "bull_rules self =
     [(get_ratio self ''ROE'' None, \<lambda>x. x > 0.15, bull_roe_msg),
      (get_ratio self ''Gross_Margin'' None, \<lambda>x. x > 0.30, bull_gross_margin_msg),
      (get_ratio self ''Operating_Margin'' None, \<lambda>x. x > 0.15, bull_op_margin_msg),
      (get_ratio self ''Current_Ratio'' None, \<lambda>x. x > 1.5, bull_current_ratio_msg),
      (get_ratio self ''Debt_to_Equity'' None, \<lambda>x. x < 0.5, bull_de_ratio_msg),
      (get_growth_rate self ''Total_Revenue_CAGR'' None, \<lambda>x. x > 0.10, bull_rev_cagr_msg),
      (get_ratio self ''Net_Income'' None,
       \<lambda>x. case get_ratio self ''Operating_Cash_Flow'' None of
              None \<Rightarrow> False | Some ocf \<Rightarrow> ocf > x \<and> x > 0,
       \<lambda>x. bull_cash_flow_msg)]"

definition bear_rules :: "generator \<Rightarrow> rule list" where
  "bear_rules self =
     [(get_ratio self ''PE_Ratio'' None, \<lambda>x. x > 30, bear_pe_ratio_msg),
      (get_ratio self ''Debt_to_Equity'' None, \<lambda>x. x > 1.5, bear_de_ratio_msg),
      (get_growth_rate self ''Total_Revenue_CAGR'' None, \<lambda>x. x < 0.03, bear_rev_cagr_msg),
      (get_ratio self ''Operating_Margin'' None, \<lambda>x. x < 0.05, bear_op_margin_msg),
      (get_ratio self ''Current_Ratio'' None, \<lambda>x. x < 1.0, bear_current_ratio_msg),
      (get_ratio self ''ROE'' None, \<lambda>x. x < 0.05, bear_roe_msg)]"

definition red_flag_rules :: "generator \<Rightarrow> rule list" where
  "red_flag_rules self =
     [(get_ratio self ''ROE'' None, \<lambda>x. x < 0, red_roe_msg),
      (get_ratio self ''Debt_to_Equity'' None, \<lambda>x. x > 2.0, red_de_ratio_msg),
      (get_ratio self ''Current_Ratio'' None, \<lambda>x. x < 0.8, red_current_ratio_msg),
      (get_growth_rate self ''Total_Revenue_CAGR'' None, \<lambda>x. x < - 0.05, red_rev_cagr_msg),
      (get_ratio self ''PE_Ratio'' None, \<lambda>x. x > 100, red_pe_ratio_msg)]"

text \<open>
  The risk table of the specification, over the six inputs once a missing one has been
  replaced by its default.
\<close>

definition or_default :: "real option \<Rightarrow> real \<Rightarrow> real" where
  "or_default v d = (case v of None \<Rightarrow> d | Some x \<Rightarrow> x)"

definition risk_table :: "real \<Rightarrow> real \<Rightarrow> real \<Rightarrow> real \<Rightarrow> real \<Rightarrow> real \<Rightarrow> (string \<rightharpoonup> string)" where
  "risk_table cr de pe cagr roe om =
     [''Financial Health'' \<mapsto>
        (if cr \<ge> 1.5 \<and> de \<le> 0.5 then ''LOW''
         else if cr < 1.0 \<or> de > 2.0 then ''HIGH'' else ''MODERATE''),
      ''Valuation'' \<mapsto> (if pe < 20 then ''LOW'' else if pe > 40 then ''HIGH'' else ''MODERATE''),
      ''Growth'' \<mapsto> (if cagr > 0.10 then ''LOW'' else if cagr < 0 then ''HIGH'' else ''MODERATE''),
      ''Liquidity'' \<mapsto> (if cr \<ge> 2.0 then ''LOW'' else if cr < 1.0 then ''HIGH'' else ''MODERATE''),
      ''Profitability'' \<mapsto>
        (if roe > 0.15 \<and> om > 0.15 then ''LOW''
         else if roe < 0 \<or> om < 0.05 then ''HIGH'' else ''MODERATE'')]"

subsection \<open>Telling messages apart\<close>

text \<open>
  The first eight characters of a message tell which check or fallback wrote it; the
  proofs tell messages apart by them.
\<close>

definition tags_within :: "string list \<Rightarrow> string list \<Rightarrow> bool" where
  "tags_within ks points =
     (distinct (map (take 8) points) \<and> set (map (take 8) points) \<subseteq> set ks)"

text \<open>
  How the result of an accessor body depends on the default it is given: it is a number
  that does not depend on it, or the default itself, or an exception.
\<close>

definition outcome_shape :: "(real option \<Rightarrow> py_error + real option) \<Rightarrow> bool" where
  "outcome_shape f = ((\<exists>r. \<forall>d. f d = Inr (Some r)) \<or> (\<forall>d. f d = Inr d) \<or> (\<exists>e. \<forall>d. f d = Inl e))"

subsection \<open>Example records\<close>

text \<open>
  Five input records: one whose table is column-oriented and in which every bull
  signal fires, the empty record, one whose table is row-oriented, holds a missing
  number, an object and \<open>None\<close>, and whose growth rates are not a dictionary,
  one in which every red flag is raised, and one whose price is 0.1.
\<close>

definition strong_frame :: dataframe where
  "strong_frame =
     \<lparr>df_index = [IntLabel 0],
      df_columns = map StrLabel [''ROE'', ''Gross_Margin'', ''Operating_Margin'', ''Current_Ratio'',
         ''Debt_to_Equity'', ''PE_Ratio'', ''Current_Price'', ''Net_Income'', ''Operating_Cash_Flow''],
      df_values = (\<lambda>i j. map PyFloat [0.2, 0.4, 0.2, 2.0, 0.3, 15, 100, 50, 80] ! j)\<rparr>"

definition strong_fin :: fin_dict where
  "strong_fin =
     \<lparr>fin_ticker = Some ''ACME'', fin_company_name = Some ''Acme Corp'',
      fin_ratios = Some (RatiosFrame strong_frame),
      fin_growth_rates = Some (GrowthDict [''Total_Revenue_CAGR'' \<mapsto> PyFloat 0.12]),
      fin_market_data = None\<rparr>"

definition empty_fin :: fin_dict where
  "empty_fin =
     \<lparr>fin_ticker = None, fin_company_name = None, fin_ratios = None,
      fin_growth_rates = None, fin_market_data = None\<rparr>"

definition weak_frame :: dataframe where
  "weak_frame =
     \<lparr>df_index = map StrLabel [''ROE'', ''Debt_to_Equity'', ''Current_Ratio'', ''PE_Ratio'', ''Operating_Margin'', ''Current_Price''],
      df_columns = [StrLabel ''value''],
      df_values = (\<lambda>i j. [PyFloat (- 0.1), PyFloat 0.5, PyFloat 0.7, PyNaN, PyObj, PyNone] ! i)\<rparr>"

definition weak_fin :: fin_dict where
  "weak_fin =
     \<lparr>fin_ticker = Some ''WEAK'', fin_company_name = None,
      fin_ratios = Some (RatiosFrame weak_frame),
      fin_growth_rates = Some GrowthOther,
      fin_market_data = None\<rparr>"

definition distressed_frame :: dataframe where
  "distressed_frame =
     \<lparr>df_index = [IntLabel 0],
      df_columns = map StrLabel [''ROE'', ''Debt_to_Equity'', ''Current_Ratio'', ''PE_Ratio''],
      df_values = (\<lambda>i j. map PyFloat [- 0.1, 3, 0.5, 150] ! j)\<rparr>"

definition distressed_fin :: fin_dict where
  "distressed_fin =
     \<lparr>fin_ticker = Some ''DSTR'', fin_company_name = None,
      fin_ratios = Some (RatiosFrame distressed_frame),
      fin_growth_rates = Some (GrowthDict [''Total_Revenue_CAGR'' \<mapsto> PyFloat (- 0.1)]),
      fin_market_data = None\<rparr>"

definition penny_fin :: fin_dict where
  "penny_fin =
     \<lparr>fin_ticker = Some ''PNNY'', fin_company_name = None,
      fin_ratios = Some (RatiosFrame
        \<lparr>df_index = [StrLabel ''Current_Price''], df_columns = [IntLabel 0],
         df_values = (\<lambda>i j. PyFloat 0.1)\<rparr>),
      fin_growth_rates = None, fin_market_data = None\<rparr>"

section \<open>Properties\<close>

subsection \<open>The accessors and their defaults\<close>

lemma coerce_cases:
  "(\<exists>r. \<forall>d. coerce v d = Inr (Some r)) \<or> (\<forall>d. coerce v d = Inr d) \<or> (\<exists>e. \<forall>d. coerce v d = Inl e)"
proof (cases v)
  case (Scalar x)
  then show ?thesis by (cases x) auto
qed auto

lemma coerce_of_default: "coerce (of_default d) d = Inr d"
  by (cases d) simp_all

lemma shape_coerce: "outcome_shape (coerce v)"
  using coerce_cases[of v] by (simp add: outcome_shape_def)

lemma shape_default: "outcome_shape (\<lambda>d. coerce (of_default d) d)"
  by (simp add: outcome_shape_def coerce_of_default)

lemma shape_Inr: "outcome_shape Inr"
  by (simp add: outcome_shape_def)
lemma shape_Inl: "outcome_shape (\<lambda>d. Inl e)"
  by (simp add: outcome_shape_def)

lemma shape_if:
  "outcome_shape (\<lambda>d. if c then f d else g d) = (if c then outcome_shape f else outcome_shape g)"
  by simp

lemma shape_iloc0: "outcome_shape (\<lambda>d. case iloc0 v of Inl e \<Rightarrow> Inl e | Inr val \<Rightarrow> coerce val d)"
  by (cases "iloc0 v") (simp_all add: shape_Inl shape_coerce)

lemma get_ratio_body_shape: "outcome_shape (get_ratio_body self name)"
proof (cases "ratios self")
  case RatiosNone
  then show ?thesis by (simp add: get_ratio_body_def[abs_def] shape_Inr)
next
  case RatiosOther
  then show ?thesis by (simp add: get_ratio_body_def[abs_def] shape_Inl)
next
  case (RatiosFrame df)
  have loc: "outcome_shape (\<lambda>dflt. case df_loc df name of
               Inl e \<Rightarrow> Inl e
             | Inr (Series xs) \<Rightarrow>
                 if length xs > 0 then
                   (case iloc0 (Series xs) of Inl e \<Rightarrow> Inl e | Inr val \<Rightarrow> coerce val dflt)
                 else coerce (of_default dflt) dflt
             | Inr val \<Rightarrow> coerce val dflt)"
  proof (cases "df_loc df name")
    case (Inl e)
    then show ?thesis by (simp add: shape_Inl)
  next
    case (Inr val)
    then show ?thesis
      by (cases val) (simp_all add: shape_coerce shape_default shape_iloc0 shape_Inl shape_if)
  qed
  have col: "outcome_shape (\<lambda>dflt. if length (df_index df) > 0 then
               (case df_getitem df name of
                  Inl e \<Rightarrow> Inl e
                | Inr col \<Rightarrow> (case iloc0 col of Inl e \<Rightarrow> Inl e | Inr val \<Rightarrow> coerce val dflt))
             else coerce (of_default dflt) dflt)"
    by (cases "df_getitem df name") (simp_all add: shape_Inl shape_default shape_iloc0 shape_if)
  from RatiosFrame loc col show ?thesis
    by (simp add: get_ratio_body_def[abs_def] shape_Inr shape_if)
qed

lemma get_growth_rate_body_shape: "outcome_shape (get_growth_rate_body self name)"
proof (cases "growth_rates self")
  case GrowthOther
  then show ?thesis by (simp add: get_growth_rate_body_def[abs_def] shape_Inl)
next
  case (GrowthDict d)
  then show ?thesis
    by (cases "d name") (simp_all add: get_growth_rate_body_def[abs_def] shape_default shape_coerce)
qed

lemma shape_default_subst:
  assumes "outcome_shape f"
  shows "(case f d of Inl e \<Rightarrow> d | Inr v \<Rightarrow> v) =
         (case (case f None of Inl e \<Rightarrow> None | Inr v \<Rightarrow> v) of None \<Rightarrow> d | Some x \<Rightarrow> Some x)"
  using assms unfolding outcome_shape_def by (elim disjE exE) simp_all

lemma get_ratio_default:
  "get_ratio self name d = (case get_ratio self name None of None \<Rightarrow> d | Some x \<Rightarrow> Some x)"
  unfolding get_ratio_def by (rule shape_default_subst[OF get_ratio_body_shape])

lemma get_growth_rate_default:
  "get_growth_rate self name d = (case get_growth_rate self name None of None \<Rightarrow> d | Some x \<Rightarrow> Some x)"
  unfolding get_growth_rate_def by (rule shape_default_subst[OF get_growth_rate_body_shape])

lemma get_ratio_Some: "get_ratio self name (Some d) = Some (or_default (get_ratio self name None) d)"
  by (subst get_ratio_default) (simp add: or_default_def split: option.split)

lemma get_growth_rate_Some:
  "get_growth_rate self name (Some d) = Some (or_default (get_growth_rate self name None) d)"
  by (subst get_growth_rate_default) (simp add: or_default_def split: option.split)

subsection \<open>The padding loop\<close>

lemma short_list_cases:
  assumes "length pts < 3"
  obtains "pts = []" | x where "pts = [x]" | x y where "pts = [x, y]"
proof (cases pts)
  case Nil then show ?thesis using that by simp
next
  case (Cons x xs)
  show ?thesis
  proof (cases xs)
    case Nil with Cons show ?thesis using that by simp
  next
    case (Cons y ys)
    with \<open>pts = x # xs\<close> assms have "ys = []" by simp
    with Cons \<open>pts = x # xs\<close> show ?thesis using that by simp
  qed
qed

lemma pad_pass_three:
  assumes "distinct [a, b, c]" and "length pts < 3"
  shows "length (pad_pass [a, b, c] pts) = 3"
  using assms(2)
proof (cases pts rule: short_list_cases)
  case 1 then show ?thesis using assms(1) by (auto simp: pad_pass_def)
next
  case (2 x) then show ?thesis using assms(1) by (auto simp: pad_pass_def)
next
  case (3 x y) then show ?thesis using assms(1) by (auto simp: pad_pass_def)
qed

lemma pad_pass_disjoint:
  assumes "set pts \<inter> {a, b, c} = {}" and "distinct [a, b, c]" and "length pts < 3"
  shows "pad_pass [a, b, c] pts = take 3 (pts @ [a, b, c])" 
  using assms(3)
proof (cases pts rule: short_list_cases)
  case 1 then show ?thesis using assms by (auto simp: pad_pass_def)
next
  case (2 x) then show ?thesis using assms by (auto simp: pad_pass_def)
next
  case (3 x y) then show ?thesis using assms by (auto simp: pad_pass_def)
qed

lemma pad_loop_ge3: "3 \<le> length pts \<Longrightarrow> pad_loop fbs pts = Some pts"
  by (subst pad_loop.simps) simp

lemma pad_loop_three:
  assumes "distinct [a, b, c]"
  shows "pad_loop [a, b, c] pts = Some (if length pts < 3 then pad_pass [a, b, c] pts else pts)"
proof (cases "length pts < 3")
  case True
  then have "length (pad_pass [a, b, c] pts) = 3" using assms by (simp add: pad_pass_three)
  then have "pad_loop [a, b, c] (pad_pass [a, b, c] pts) = Some (pad_pass [a, b, c] pts)"
    by (simp add: pad_loop_ge3)
  with True show ?thesis by (subst pad_loop.simps) simp
next
  case False
  then show ?thesis by (simp add: pad_loop_ge3)
qed

subsection \<open>Tags of the messages\<close>

lemma bull_tags [simp]:
  "take 8 (bull_roe_msg x) = ''Strong p''"
  "take 8 (bull_gross_margin_msg x) = ''Healthy ''"
  "take 8 (bull_op_margin_msg x) = ''Strong o''"
  "take 8 (bull_current_ratio_msg x) = ''Solid li''"
  "take 8 (bull_de_ratio_msg x) = ''Conserva''"
  "take 8 (bull_rev_cagr_msg x) = ''Consiste''"
  "take 8 bull_cash_flow_msg = ''Excellen''"
  by (simp_all add: bull_roe_msg_def bull_gross_margin_msg_def bull_op_margin_msg_def
     bull_current_ratio_msg_def bull_de_ratio_msg_def bull_rev_cagr_msg_def bull_cash_flow_msg_def)

lemma bear_tags [simp]:
  "take 8 (bear_pe_ratio_msg x) = ''Premium ''"
  "take 8 (bear_de_ratio_msg x) = ''High lev''"
  "take 8 (bear_rev_cagr_msg x) = (if x < 0 then ''Revenue '' else ''Slowing '')"
  "take 8 (bear_op_margin_msg x) = ''Thin mar''"
  "take 8 (bear_current_ratio_msg x) = ''Liquidit''"
  "take 8 (bear_roe_msg x) = (if x < 0 then ''Negative'' else ''Low retu'')"
  by (simp_all add: bear_pe_ratio_msg_def bear_de_ratio_msg_def bear_rev_cagr_msg_def
     bear_op_margin_msg_def bear_current_ratio_msg_def bear_roe_msg_def)

lemma tags_within_Nil: "tags_within [] []"
  by (simp add: tags_within_def)

lemma tags_within_step:
  assumes "tags_within ks pts" and "\<And>x. take 8 (msg x) \<in> set ns" and "set ns \<inter> set ks = {}"
  shows "tags_within (ns @ ks) (append_when v P msg pts)"
  using assms by (auto simp: tags_within_def append_when_def split: option.split)

lemma bull_signals_tags:
  "tags_within ([''Excellen''] @ [''Consiste''] @ [''Conserva''] @ [''Solid li''] @ [''Strong o''] @ [''Healthy ''] @ [''Strong p''] @ [])
     (bull_signals self)"
  unfolding bull_signals_def Let_def
  by (intro tags_within_step tags_within_Nil) simp_all

lemma bear_signals_tags:
  "tags_within ([''Negative'', ''Low retu''] @ [''Liquidit''] @ [''Thin mar''] @ [''Revenue '', ''Slowing ''] @ [''High lev''] @ [''Premium ''] @ [])
     (bear_signals self)"
  unfolding bear_signals_def Let_def
  by (intro tags_within_step tags_within_Nil) simp_all


subsection \<open>The example records, evaluated\<close>

lemmas accessor_defs = get_ratio_def get_ratio_body_def get_growth_rate_def get_growth_rate_body_def
  init_def df_empty_def df_loc_def df_getitem_def positions_def df_row_def df_col_def empty_frame_def

lemmas float_eval = to_float_def exponent2_def scale2_def round_half_even_def Let_def
  bit_length.simps float_mul_def format_fixed_def nat_digits.simps digit_char_def

lemma strong_vals:
  "get_ratio (init strong_fin) ''ROE'' d = Some 0.2"
  "get_ratio (init strong_fin) ''Gross_Margin'' d = Some 0.4"
  "get_ratio (init strong_fin) ''Operating_Margin'' d = Some 0.2"
  "get_ratio (init strong_fin) ''Current_Ratio'' d = Some 2"
  "get_ratio (init strong_fin) ''Debt_to_Equity'' d = Some 0.3"
  "get_ratio (init strong_fin) ''PE_Ratio'' d = Some 15"
  "get_ratio (init strong_fin) ''Current_Price'' d = Some 100"
  "get_ratio (init strong_fin) ''Net_Income'' d = Some 50"
  "get_ratio (init strong_fin) ''Operating_Cash_Flow'' d = Some 80"
  "get_ratio (init strong_fin) ''Market_Cap'' d = d"
  "get_growth_rate (init strong_fin) ''Total_Revenue_CAGR'' d = Some 0.12"
  by (simp_all add: accessor_defs strong_fin_def strong_frame_def)

lemma empty_vals:
  "get_ratio (init empty_fin) name d = d"
  "get_growth_rate (init empty_fin) name d = d"
  by (simp_all add: accessor_defs empty_fin_def coerce_of_default)

lemma weak_vals:
  "get_ratio (init weak_fin) ''ROE'' d = Some (- 0.1)"
  "get_ratio (init weak_fin) ''Debt_to_Equity'' d = Some 0.5"
  "get_ratio (init weak_fin) ''Current_Ratio'' d = Some 0.7"
  "get_ratio (init weak_fin) ''PE_Ratio'' d = d"
  "get_ratio (init weak_fin) ''Operating_Margin'' d = d"
  "get_ratio (init weak_fin) ''Current_Price'' d = d"
  "get_ratio (init weak_fin) ''Gross_Margin'' d = d"
  "get_ratio (init weak_fin) ''Net_Income'' d = d"
  "get_ratio (init weak_fin) ''Operating_Cash_Flow'' d = d"
  "get_growth_rate (init weak_fin) name d = d"
  by (simp_all add: accessor_defs weak_fin_def weak_frame_def)


lemma distressed_vals:
  "get_ratio (init distressed_fin) ''ROE'' d = Some (- 0.1)"
  "get_ratio (init distressed_fin) ''Debt_to_Equity'' d = Some 3"
  "get_ratio (init distressed_fin) ''Current_Ratio'' d = Some 0.5"
  "get_ratio (init distressed_fin) ''PE_Ratio'' d = Some 150"
  "get_growth_rate (init distressed_fin) ''Total_Revenue_CAGR'' d = Some (- 0.1)"
  by (simp_all add: accessor_defs distressed_fin_def distressed_frame_def)

subsection \<open>Bull and bear case\<close>

lemma append_when_fired: "append_when v P msg pts = pts @ fired (v, P, msg)"
  by (cases v) (simp_all add: append_when_def)

lemma bull_signals_fired: "bull_signals self = fired_messages (bull_rules self)"
  by (simp add: bull_signals_def bull_rules_def fired_messages_def Let_def append_when_fired)

lemma bear_signals_fired: "bear_signals self = fired_messages (bear_rules self)"
  by (simp add: bear_signals_def bear_rules_def fired_messages_def Let_def append_when_fired)

lemma red_flag_signals_fired: "red_flag_signals self = fired_messages (red_flag_rules self)"
  by (simp add: red_flag_signals_def red_flag_rules_def fired_messages_def Let_def append_when_fired)

lemma fallback_tags:
  "map (take 8) bull_fallback_points = [''Establis'', ''Diversif'', ''Experien'']"
  "map (take 8) bear_fallback_points = [''Competit'', ''Macroeco'', ''Executio'']"
  by (simp_all add: bull_fallback_points_def bear_fallback_points_def)

lemma distinct_fallbacks:
  "distinct bull_fallback_points" "distinct bear_fallback_points"
  by (simp_all add: bull_fallback_points_def bear_fallback_points_def)

lemma tags_within_distinct: "tags_within ks pts \<Longrightarrow> distinct pts"
  by (simp add: tags_within_def distinct_map)

lemma tags_disjoint:
  assumes "tags_within ks pts" and "set (map (take 8) fbs) \<inter> set ks = {}"
  shows "set pts \<inter> set fbs = {}"
  using assms by (auto simp: tags_within_def)

lemma distinct_signals_fallbacks:
  assumes "tags_within ks pts" and "set (map (take 8) fbs) \<inter> set ks = {}" and "distinct fbs"
  shows "distinct (pts @ fbs)"
  using assms tags_within_distinct[OF assms(1)] tags_disjoint[OF assms(1,2)] by simp

lemma bull_disjoint: "set (bull_signals self) \<inter> set bull_fallback_points = {}"
  by (rule tags_disjoint[OF bull_signals_tags]) (simp add: fallback_tags)

lemma bear_disjoint: "set (bear_signals self) \<inter> set bear_fallback_points = {}"
  by (rule tags_disjoint[OF bear_signals_tags]) (simp add: fallback_tags)

lemma bull_distinct: "distinct (bull_signals self @ bull_fallback_points)"
  by (rule distinct_signals_fallbacks[OF bull_signals_tags]) (simp_all add: fallback_tags distinct_fallbacks)

lemma bear_distinct: "distinct (bear_signals self @ bear_fallback_points)"
  by (rule distinct_signals_fallbacks[OF bear_signals_tags]) (simp_all add: fallback_tags distinct_fallbacks)

lemma pad_then_take:
  assumes "distinct [a, b, c]" and "set pts \<inter> {a, b, c} = {}"
  shows "map_option (take 3) (pad_loop [a, b, c] pts) = Some (take 3 (pts @ [a, b, c]))"
proof (cases "length pts < 3")
  case True
  with assms show ?thesis by (simp add: pad_loop_three pad_pass_disjoint)
next
  case False
  with assms(1) show ?thesis by (simp add: pad_loop_three)
qed

lemma generate_bull_case_eq:
  "generate_bull_case self = Some (take 3 (bull_signals self @ bull_fallback_points))"
  using bull_disjoint[of self] unfolding generate_bull_case_def bull_fallback_points_def
  by (intro pad_then_take) simp_all

lemma generate_bear_case_eq:
  "generate_bear_case self = Some (take 3 (bear_signals self @ bear_fallback_points))"
  using bear_disjoint[of self] unfolding generate_bear_case_def bear_fallback_points_def
  by (intro pad_then_take) simp_all

lemma length_take3_fallbacks:
  "length (take 3 (pts @ bull_fallback_points)) = 3" "length (take 3 (pts @ bear_fallback_points)) = 3"
  by (simp_all add: bull_fallback_points_def bear_fallback_points_def)

text \<open>
  C2: for every record the lists returned by \<open>generate_bull_case\<close> and
  \<open>generate_bear_case\<close> have exactly three elements and no duplicates: the messages
  of the rules that fired, in rule order, then the fallback strings in their order, cut
  after the third.
\<close>

theorem bull_bear_three_distinct:
  "\<exists>bull bear.
     generate_bull_case self = Some bull \<and> generate_bear_case self = Some bear \<and>
     bull = take 3 (fired_messages (bull_rules self) @ bull_fallback_points) \<and>
     bear = take 3 (fired_messages (bear_rules self) @ bear_fallback_points) \<and>
     length bull = 3 \<and> length bear = 3 \<and> distinct bull \<and> distinct bear"
proof -
  let ?bull = "take 3 (bull_signals self @ bull_fallback_points)"
  let ?bear = "take 3 (bear_signals self @ bear_fallback_points)"
  have "distinct ?bull" and "distinct ?bear"
    by (simp_all only: distinct_take bull_distinct bear_distinct)
  moreover have "length ?bull = 3" and "length ?bear = 3"
    by (simp_all only: length_take3_fallbacks)
  ultimately show ?thesis
    unfolding bull_signals_fired[symmetric] bear_signals_fired[symmetric]
    by (simp only: generate_bull_case_eq generate_bear_case_eq) blast
qed

theorem bull_bear_three_distinct_witness:
  "generate_bull_case (init weak_fin) = Some bull_fallback_points \<and>
   generate_bear_case (init weak_fin) =
     Some [''Liquidity concerns: Current ratio of 0.70x may strain operations'',
           ''Negative profitability: ROE of -10.0% indicates losses'',
           ''Competitive pressure may compress margins over time'']"
  using bull_bear_three_distinct[of "init weak_fin"]
  by (simp add: bull_rules_def bear_rules_def fired_messages_def weak_vals
      bull_fallback_points_def bear_fallback_points_def bear_current_ratio_msg_def bear_roe_msg_def
      float_eval)


lemma take3_three: "take 3 ((a # b # c # xs) @ ys) = [a, b, c]"
  by (simp add: numeral_3_eq_3)

text \<open>
  C4: when all seven bull signals fire (ROE above 0.15, gross margin above 0.30,
  operating margin above 0.15, current ratio above 1.5, debt to equity below 0.5,
  revenue CAGR above 0.10, operating cash flow above a positive net income),
  \<open>generate_bull_case\<close> returns exactly the messages of the first three rules, for
  ROE, gross margin and operating margin, in that order.
\<close>

theorem bull_case_all_signals:
  assumes "get_ratio self ''ROE'' None = Some roe" and "roe > 0.15"
    and "get_ratio self ''Gross_Margin'' None = Some gross_margin" and "gross_margin > 0.30"
    and "get_ratio self ''Operating_Margin'' None = Some op_margin" and "op_margin > 0.15"
    and "get_ratio self ''Current_Ratio'' None = Some current_ratio" and "current_ratio > 1.5"
    and "get_ratio self ''Debt_to_Equity'' None = Some de_ratio" and "de_ratio < 0.5"
    and "get_growth_rate self ''Total_Revenue_CAGR'' None = Some rev_cagr" and "rev_cagr > 0.10"
    and "get_ratio self ''Net_Income'' None = Some net_income"
    and "get_ratio self ''Operating_Cash_Flow'' None = Some ocf"
    and "ocf > net_income" and "net_income > 0"
  shows "generate_bull_case self =
           Some [bull_roe_msg roe, bull_gross_margin_msg gross_margin, bull_op_margin_msg op_margin]"
proof -
  have "bull_signals self =
          [bull_roe_msg roe, bull_gross_margin_msg gross_margin, bull_op_margin_msg op_margin,
           bull_current_ratio_msg current_ratio, bull_de_ratio_msg de_ratio,
           bull_rev_cagr_msg rev_cagr, bull_cash_flow_msg]"
    using assms by (simp add: bull_signals_def Let_def append_when_def)
  then show ?thesis
    by (simp only: generate_bull_case_eq take3_three)
qed

theorem bull_case_all_signals_witness:
  "generate_bull_case (init strong_fin) =
     Some [''Strong profitability: ROE of 20.0%, indicating efficient use of shareholder capital'',
           ''Healthy margins: Gross margin of 40.0%, demonstrating pricing power'',
           ''Strong operating efficiency: Operating margin of 20.0%'']"
proof -
  have "generate_bull_case (init strong_fin) =
          Some [bull_roe_msg 0.2, bull_gross_margin_msg 0.4, bull_op_margin_msg 0.2]"
    by (rule bull_case_all_signals[where current_ratio = 2 and de_ratio = "0.3" and rev_cagr = "0.12"
          and net_income = 50 and ocf = 80]) (simp_all add: strong_vals)
  then show ?thesis
    by (simp add: bull_roe_msg_def bull_gross_margin_msg_def bull_op_margin_msg_def
        float_eval)
qed

text \<open>
  C5: when no bull signal fires, each of the seven conditions being false or its value
  absent, \<open>generate_bull_case\<close> returns exactly the three fallback strings in the
  order of the fallback list.
\<close>

theorem bull_case_no_signal:
  assumes "\<forall>x. get_ratio self ''ROE'' None = Some x \<longrightarrow> \<not> x > 0.15"
    and "\<forall>x. get_ratio self ''Gross_Margin'' None = Some x \<longrightarrow> \<not> x > 0.30"
    and "\<forall>x. get_ratio self ''Operating_Margin'' None = Some x \<longrightarrow> \<not> x > 0.15"
    and "\<forall>x. get_ratio self ''Current_Ratio'' None = Some x \<longrightarrow> \<not> x > 1.5"
    and "\<forall>x. get_ratio self ''Debt_to_Equity'' None = Some x \<longrightarrow> \<not> x < 0.5"
    and "\<forall>x. get_growth_rate self ''Total_Revenue_CAGR'' None = Some x \<longrightarrow> \<not> x > 0.10"
    and "\<forall>x y. get_ratio self ''Net_Income'' None = Some x \<and>
                get_ratio self ''Operating_Cash_Flow'' None = Some y \<longrightarrow> \<not> (y > x \<and> x > 0)"
  shows "generate_bull_case self = Some bull_fallback_points"
proof -
  have quiet: "append_when v P msg pts = pts" if "\<forall>x. v = Some x \<longrightarrow> \<not> P x" for v P msg pts
    using that by (cases v) (simp_all add: append_when_def)
  have "append_when (get_ratio self ''Net_Income'' None)
          (\<lambda>net_income. case get_ratio self ''Operating_Cash_Flow'' None of None \<Rightarrow> False
             | Some ocf \<Rightarrow> ocf > net_income \<and> net_income > 0)
          (\<lambda>net_income. bull_cash_flow_msg) [] = []"
    using assms(7) by (intro quiet) (auto split: option.split)
  then have "bull_signals self = []"
    using assms(1-6) by (simp add: bull_signals_def Let_def quiet)
  then show ?thesis
    by (simp add: generate_bull_case_eq bull_fallback_points_def)
qed

theorem bull_case_no_signal_witness:
  "generate_bull_case (init weak_fin) =
     Some [''Established market position with brand recognition'',
           ''Diversified revenue streams reduce concentration risk'',
           ''Experienced management team with track record'']"
  using bull_case_no_signal[of "init weak_fin"]
  by (simp add: weak_vals bull_fallback_points_def)


text \<open>
  C8: when the debt-to-equity value is exactly 0.5, the low-leverage rule of the bull
  case does not fire (its comparison is a strict \<open><\<close> 0.5) and the high-leverage
  rule of the bear case does not fire (a strict \<open>>\<close> 1.5): neither leverage
  message is appended, and neither is in the list returned.
\<close>

theorem de_ratio_boundary:
  assumes "get_ratio self ''Debt_to_Equity'' None = Some 0.5"
  shows "\<exists>bull bear.
           generate_bull_case self = Some bull \<and> generate_bear_case self = Some bear \<and>
           (\<forall>x. bull_de_ratio_msg x \<notin> set (bull_signals self) \<and> bull_de_ratio_msg x \<notin> set bull) \<and>
           (\<forall>x. bear_de_ratio_msg x \<notin> set (bear_signals self) \<and> bear_de_ratio_msg x \<notin> set bear)"
proof -
  have skip_bull: "append_when (Some 0.5) (\<lambda>de_ratio. de_ratio < 0.5) bull_de_ratio_msg pts = pts"
    for pts
    by (simp add: append_when_def)
  have skip_bear: "append_when (Some 0.5) (\<lambda>de_ratio. de_ratio > 1.5) bear_de_ratio_msg pts = pts"
    for pts
    by (simp add: append_when_def)
  have bull: "tags_within ([''Excellen''] @ [''Consiste''] @ [''Solid li''] @ [''Strong o''] @
                [''Healthy ''] @ [''Strong p''] @ []) (bull_signals self)"
    unfolding bull_signals_def Let_def assms skip_bull
    by (intro tags_within_step tags_within_Nil) simp_all
  have bear: "tags_within ([''Negative'', ''Low retu''] @ [''Liquidit''] @ [''Thin mar''] @
                [''Revenue '', ''Slowing ''] @ [''Premium ''] @ []) (bear_signals self)"
    unfolding bear_signals_def Let_def assms skip_bear
    by (intro tags_within_step tags_within_Nil) simp_all
  have no_bull: "bull_de_ratio_msg x \<notin> set (bull_signals self @ bull_fallback_points)" for x
  proof -
    have "take 8 (bull_de_ratio_msg x) \<notin> set (map (take 8) (bull_signals self @ bull_fallback_points))"
      using bull by (auto simp: tags_within_def fallback_tags)
    then show ?thesis by (metis imageI set_map)
  qed
  have no_bear: "bear_de_ratio_msg x \<notin> set (bear_signals self @ bear_fallback_points)" for x
  proof -
    have "take 8 (bear_de_ratio_msg x) \<notin> set (map (take 8) (bear_signals self @ bear_fallback_points))"
      using bear by (auto simp: tags_within_def fallback_tags)
    then show ?thesis by (metis imageI set_map)
  qed
  have "bull_de_ratio_msg x \<notin> set (take 3 (bull_signals self @ bull_fallback_points))" for x
    using no_bull[of x] by (blast dest: in_set_takeD)
  moreover have "bear_de_ratio_msg x \<notin> set (take 3 (bear_signals self @ bear_fallback_points))" for x
    using no_bear[of x] by (blast dest: in_set_takeD)
  ultimately show ?thesis
    using no_bull no_bear by (simp add: generate_bull_case_eq generate_bear_case_eq)
qed

theorem de_ratio_boundary_witness:
  "get_ratio (init weak_fin) ''Debt_to_Equity'' None = Some 0.5 \<and>
   (\<exists>bull bear.
      generate_bull_case (init weak_fin) = Some bull \<and>
      generate_bear_case (init weak_fin) = Some bear \<and>
      (\<forall>x. bull_de_ratio_msg x \<notin> set (bull_signals (init weak_fin)) \<and> bull_de_ratio_msg x \<notin> set bull) \<and>
      (\<forall>x. bear_de_ratio_msg x \<notin> set (bear_signals (init weak_fin)) \<and> bear_de_ratio_msg x \<notin> set bear))"
proof -
  have h: "get_ratio (init weak_fin) ''Debt_to_Equity'' None = Some 0.5"
    by (simp add: weak_vals)
  show ?thesis using h de_ratio_boundary[OF h] by blast
qed


subsection \<open>Valuation range\<close>

text \<open>Rounding to a float, and the product of two floats, are accurate.\<close>

lemma bit_length_bounds: "0 < n \<Longrightarrow> 2 ^ (bit_length n - 1) \<le> n \<and> n < 2 ^ bit_length n"
proof (induction n rule: bit_length.induct)
  case (1 n)
  show ?case
  proof (cases "n div 2 = 0")
    case True
    with \<open>0 < n\<close> have "n = 1" by (simp add: div_eq_0_iff) 
    then show ?thesis by (simp add: bit_length.simps)
  next
    case False
    then have pos: "0 < n div 2" by simp
    from \<open>0 < n\<close> have n0: "n \<noteq> 0" by simp
    from "1.IH"[OF n0 pos]
    have lo: "2 ^ (bit_length (n div 2) - 1) \<le> n div 2" and hi: "n div 2 < 2 ^ bit_length (n div 2)"
      by simp_all
    have bl: "bit_length n = Suc (bit_length (n div 2))"
      using n0 by (subst bit_length.simps) simp
    have bpos: "0 < bit_length (n div 2)"
      using pos by (subst bit_length.simps) simp
    then obtain k where k: "bit_length (n div 2) = Suc k" by (cases "bit_length (n div 2)") auto
    have "2 ^ bit_length (n div 2) \<le> n"
      using lo k by (simp; linarith)
    moreover have "n < 2 ^ Suc (bit_length (n div 2))"
      using hi by (simp; linarith)
    ultimately show ?thesis by (simp add: bl)
  qed
qed

lemma exponent2_bounds:
  assumes "0 < x"
  shows "2 powi (exponent2 x) \<le> x \<and> x < 2 powi (exponent2 x + 1)"
proof (cases "1 \<le> x")
  case True
  define n where "n = nat \<lfloor>x\<rfloor>"
  have npos: "0 < n" using True by (simp add: n_def)
  have nx: "real n \<le> x" and xn: "x < real n + 1"
    using True by (simp_all add: n_def; linarith)+
  from bit_length_bounds[OF npos]
  have lo: "2 ^ (bit_length n - 1) \<le> n" and hi: "n < 2 ^ bit_length n" by simp_all
  have bpos: "0 < bit_length n" using npos by (subst bit_length.simps) simp
  have e: "exponent2 x = int (bit_length n - 1)"
    using True bpos by (simp add: exponent2_def n_def)
  have e1: "exponent2 x + 1 = int (bit_length n)"
    using e bpos by simp
  have "(2::real) ^ (bit_length n - 1) \<le> real n"
    using lo by (metis of_nat_le_iff of_nat_numeral of_nat_power)
  moreover have "real n + 1 \<le> 2 ^ bit_length n"
    using hi by (metis Suc_leI of_nat_Suc of_nat_le_iff of_nat_numeral of_nat_power add.commute)
  moreover have "2 powi (exponent2 x) = (2::real) ^ (bit_length n - 1)"
    by (simp only: e power_int_of_nat)
  moreover have "2 powi (exponent2 x + 1) = (2::real) ^ bit_length n"
    by (simp only: e1 power_int_of_nat)
  ultimately show ?thesis
    using nx xn by linarith
next
  case False
  then have x1: "x < 1" by simp
  define c where "c = \<lceil>1 / x\<rceil>"
  define n where "n = nat (c - 1)"
  have inv: "1 < 1 / x" using assms x1 by simp
  have c2: "2 \<le> c" using inv unfolding c_def by linarith
  have npos: "0 < n" using c2 by (simp add: n_def)
  have nc: "real n = of_int c - 1" using c2 by (simp add: n_def)
  have c_hi: "1 / x \<le> of_int c" unfolding c_def by linarith
  have c_lo: "of_int c - 1 < 1 / x" unfolding c_def by linarith
  from bit_length_bounds[OF npos]
  have lo: "2 ^ (bit_length n - 1) \<le> n" and hi: "n < 2 ^ bit_length n" by simp_all
  have bpos: "0 < bit_length n" using npos by (subst bit_length.simps) simp
  have e: "exponent2 x = - int (bit_length n)"
    using False by (simp add: exponent2_def n_def c_def)
  have e1: "exponent2 x + 1 = - int (bit_length n - 1)"
    using e bpos by simp
  have lo': "(2::real) ^ (bit_length n - 1) \<le> real n"
    using lo by (metis of_nat_le_iff of_nat_numeral of_nat_power)
  have hi': "real n + 1 \<le> 2 ^ bit_length n"
    using hi by (metis Suc_leI of_nat_Suc of_nat_le_iff of_nat_numeral of_nat_power add.commute)
  have "1 / x \<le> 2 ^ bit_length n" using c_hi nc hi' by linarith
  then have a: "1 / 2 ^ bit_length n \<le> x"
    using assms by (simp add: field_simps)
  have "2 ^ (bit_length n - 1) < 1 / x" using c_lo nc lo' by linarith
  then have b: "x < 1 / 2 ^ (bit_length n - 1)"
    using assms by (simp add: field_simps)
  have "2 powi (exponent2 x) = 1 / (2::real) ^ bit_length n"
    by (simp only: e power_int_minus_divide power_int_of_nat)
  moreover have "2 powi (exponent2 x + 1) = 1 / (2::real) ^ (bit_length n - 1)"
    by (simp only: e1 power_int_minus_divide power_int_of_nat)
  ultimately show ?thesis
    using a b by simp
qed

lemma scale2_powi: "scale2 k x = x * 2 powi k"
  by (simp add: scale2_def power_int_def field_simps)

lemma round_half_even_err: "\<bar>of_int (round_half_even y) - y\<bar> \<le> 1 / 2"
  unfolding round_half_even_def Let_def by (auto; linarith)


lemma to_float_normal:
  assumes lo: "2 powi (- 1022) \<le> x" and hi: "x < 2 powi 1023"
  shows "\<exists>m. to_float x = Fin m \<and> \<bar>m - x\<bar> \<le> x / 2 ^ 53"
proof -
  have xpos: "0 < x"
    using lo by (rule less_le_trans[rotated]) simp
  define e where "e = exponent2 x"
  have e_lo: "2 powi e \<le> x" and e_hi: "x < 2 powi (e + 1)"
    using exponent2_bounds[OF xpos] by (simp_all add: e_def)
  have "\<not> e + 1 \<le> - 1022"
  proof
    assume "e + 1 \<le> - 1022"
    then have "(2::real) powi (e + 1) \<le> 2 powi (- 1022)"
      by (intro power_int_increasing) simp_all
    with e_hi lo show False by linarith
  qed
  then have e_ge: "- 1022 \<le> e" by linarith
  have "\<not> 1023 \<le> e"
  proof
    assume "1023 \<le> e"
    then have "(2::real) powi 1023 \<le> 2 powi e"
      by (intro power_int_increasing) simp_all
    with e_lo hi show False by linarith
  qed
  then have e_le: "e \<le> 1022" by linarith
  define q where "q = e - 52"
  define y :: real where "y = x * 2 powi (- q)"
  define n where "n = round_half_even y"
  define m :: real where "m = of_int n * 2 powi q"
  have qq: "(2::real) powi (- q) * 2 powi q = 1"
    by (simp add: power_int_minus field_simps)
  have yx: "y * 2 powi q = x"
    unfolding y_def using qq by (simp add: mult.assoc)
  have "\<bar>m - x\<bar> = \<bar>of_int n - y\<bar> * 2 powi q"
  proof -
    have "m - x = (of_int n - y) * 2 powi q"
      unfolding m_def using yx by (simp add: algebra_simps)
    then show ?thesis by (simp add: abs_mult)
  qed
  also have "\<dots> \<le> (1 / 2) * 2 powi q"
    using round_half_even_err[of y] unfolding n_def
    by (intro mult_right_mono) simp_all
  also have "\<dots> = 2 powi e / 2 ^ 53"
  proof -
    have "(2::real) powi q = 2 powi e * 2 powi (- 52)"
      unfolding q_def by (simp add: power_int_diff power_int_minus_divide)
    then show ?thesis by (simp add: power_int_minus_divide)
  qed
  also have "\<dots> \<le> x / 2 ^ 53"
    using e_lo by (simp add: divide_right_mono)
  finally have err: "\<bar>m - x\<bar> \<le> x / 2 ^ 53" .
  have "x / 2 ^ 53 \<le> x" using xpos by (simp add: field_simps)
  with err have "m \<le> 2 * x" by linarith
  also have "\<dots> < 2 * 2 powi 1023" using hi by simp
  also have "\<dots> = 2 ^ 1024" by simp
  finally have m_small: "\<not> 2 ^ 1024 \<le> m" by simp
  have "max (exponent2 \<bar>x\<bar>) (- 1022) - 52 = q"
    using xpos e_ge by (simp add: q_def e_def)
  then have "to_float x = Fin m"
    using xpos m_small
    by (simp add: to_float_def Let_def scale2_powi m_def n_def y_def)
  with err show ?thesis by blast
qed


lemma float_mul_accuracy:
  assumes p_lo: "1 / 2 ^ 1000 \<le> p" and p_hi: "p \<le> 2 ^ 1000"
    and k_lo: "1 / 2 \<le> k" and k_hi: "k \<le> 2"
  shows "\<exists>c. float_mul (to_float p) (to_float k) = Fin c \<and> \<bar>c - p * k\<bar> \<le> p * k / 2 ^ 50"
proof -
  have ppos: "0 < p" using p_lo by (rule less_le_trans[rotated]) simp
  have kpos: "0 < k" using k_lo by simp
  have "2 powi (- 1022) \<le> p"
    using p_lo by (simp add: power_int_minus_divide) 
  moreover have "p < 2 powi 1023" using p_hi by simp 
  ultimately obtain a where a: "to_float p = Fin a" and a_err: "\<bar>a - p\<bar> \<le> p / 2 ^ 53"
    using to_float_normal by blast
  have "2 powi (- 1022) \<le> k"
    using k_lo by (simp add: power_int_minus_divide)
  moreover have "k < 2 powi 1023" using k_hi by simp
  ultimately obtain d where d: "to_float k = Fin d" and d_err: "\<bar>d - k\<bar> \<le> k / 2 ^ 53"
    using to_float_normal by blast
  have p_small: "p / 2 ^ 53 \<le> p / 2" using ppos by (simp add: field_simps)
  have k_small: "k / 2 ^ 53 \<le> k / 2" using kpos by (simp add: field_simps)
  have a_lo: "p / 2 \<le> a" and a_hi: "a \<le> 2 * p" using a_err p_small ppos by linarith+
  have d_lo: "k / 2 \<le> d" and d_hi: "d \<le> 2 * k" using d_err k_small kpos by linarith+
  have apos: "0 < a" using a_lo ppos by linarith
  have dpos: "0 < d" using d_lo kpos by linarith
  have pk: "0 < p * k" using ppos kpos by simp
  have ad_lo: "p * k / 4 \<le> a * d"
    using mult_mono[OF a_lo d_lo] ppos kpos apos by simp
  have ad_hi: "a * d \<le> 4 * (p * k)"
    using mult_mono[OF a_hi d_hi] ppos kpos dpos by simp
  have "1 / 2 ^ 1003 \<le> p * k / 4"
  proof -
    have "(1 / 2 ^ 1000) * (1 / 2) \<le> p * k"
      using p_lo k_lo by (intro mult_mono) simp_all
    then show ?thesis by simp
  qed
  with ad_lo have "2 powi (- 1022) \<le> a * d"
    by (simp add: power_int_minus_divide)
  moreover have "a * d < 2 powi 1023"
  proof -
    have "p * k \<le> 2 ^ 1000 * 2"
      using p_hi k_hi ppos kpos by (intro mult_mono) simp_all
    with ad_hi show ?thesis by simp
  qed
  ultimately obtain c where c: "to_float (a * d) = Fin c" and c_err: "\<bar>c - a * d\<bar> \<le> a * d / 2 ^ 53"
    using to_float_normal by blast
  have "\<bar>a * d - p * k\<bar> = \<bar>a * (d - k) + k * (a - p)\<bar>"
    by (simp add: algebra_simps)
  also have "\<dots> \<le> a * \<bar>d - k\<bar> + k * \<bar>a - p\<bar>"
    using apos kpos by (metis abs_mult abs_of_pos abs_triangle_ineq)
  also have "\<dots> \<le> (2 * p) * (k / 2 ^ 53) + k * (p / 2 ^ 53)"
    using a_hi d_err a_err apos kpos ppos
    by (intro add_mono mult_mono) simp_all
  also have "\<dots> = 3 * (p * k) / 2 ^ 53" by simp
  finally have ad_err: "\<bar>a * d - p * k\<bar> \<le> 3 * (p * k) / 2 ^ 53" .
  have "a * d / 2 ^ 53 \<le> 4 * (p * k) / 2 ^ 53"
    using ad_hi by (intro divide_right_mono) simp_all
  with c_err ad_err have "\<bar>c - p * k\<bar> \<le> 7 * (p * k) / 2 ^ 53" by linarith
  also have "\<dots> \<le> p * k / 2 ^ 50" using ppos kpos by simp
  finally have "\<bar>c - p * k\<bar> \<le> p * k / 2 ^ 50" .
  moreover have "float_mul (to_float p) (to_float k) = Fin c"
    by (simp add: a d c float_mul_def)
  ultimately show ?thesis by blast
qed


lemma valuation_positive:
  assumes "get_ratio self ''Current_Price'' None = Some price" and "price > 0"
  shows "calculate_valuation_range self =
        [''bear_case'' \<mapsto> float_mul (to_float price) (to_float 0.80),
         ''base_case'' \<mapsto> to_float price,
         ''bull_case'' \<mapsto> float_mul (to_float price) (to_float 1.25),
         ''bear_pct'' \<mapsto> Fin (- 20), ''bull_pct'' \<mapsto> Fin 25]"
  using assms by (simp add: calculate_valuation_range_def)

text \<open>
  C6: \<open>calculate_valuation_range\<close>.  When \<open>Current_Price\<close> is present and positive
  the bear case is the product of the price and 0.80, the base case the price and the
  bull case the product of the price and 1.25, with the percentages -20 and 25.  The
  products are those of floats: for a price between \<open>2 ^ - 1000\<close> and
  \<open>2 ^ 1000\<close> they differ from the exact products by at most one part in
  \<open>2 ^ 50\<close>, and a price of 100 gives exactly 80, 100 and 125.  When the price is
  absent or at most 0 the three case values are 0, with the same percentages.
\<close>

theorem valuation_range_cases:
  "(\<forall>price. get_ratio self ''Current_Price'' None = Some price \<and> price > 0 \<longrightarrow>
      calculate_valuation_range self =
        [''bear_case'' \<mapsto> float_mul (to_float price) (to_float 0.80),
         ''base_case'' \<mapsto> to_float price,
         ''bull_case'' \<mapsto> float_mul (to_float price) (to_float 1.25),
         ''bear_pct'' \<mapsto> Fin (- 20), ''bull_pct'' \<mapsto> Fin 25]) \<and>
   (\<forall>price. get_ratio self ''Current_Price'' None = Some price \<and>
        1 / 2 ^ 1000 \<le> price \<and> price \<le> 2 ^ 1000 \<longrightarrow>
      (\<exists>bear base bull.
         calculate_valuation_range self ''bear_case'' = Some (Fin bear) \<and>
         calculate_valuation_range self ''base_case'' = Some (Fin base) \<and>
         calculate_valuation_range self ''bull_case'' = Some (Fin bull) \<and>
         \<bar>bear - price * 0.80\<bar> \<le> price * 0.80 / 2 ^ 50 \<and>
         \<bar>base - price\<bar> \<le> price / 2 ^ 53 \<and>
         \<bar>bull - price * 1.25\<bar> \<le> price * 1.25 / 2 ^ 50)) \<and>
   (get_ratio self ''Current_Price'' None = Some 100 \<longrightarrow>
      calculate_valuation_range self =
        [''bear_case'' \<mapsto> Fin 80, ''base_case'' \<mapsto> Fin 100, ''bull_case'' \<mapsto> Fin 125,
         ''bear_pct'' \<mapsto> Fin (- 20), ''bull_pct'' \<mapsto> Fin 25]) \<and>
   (get_ratio self ''Current_Price'' None = None \<or>
    (\<exists>price. get_ratio self ''Current_Price'' None = Some price \<and> price \<le> 0) \<longrightarrow>
      calculate_valuation_range self =
        [''bear_case'' \<mapsto> Fin 0, ''base_case'' \<mapsto> Fin 0, ''bull_case'' \<mapsto> Fin 0,
         ''bear_pct'' \<mapsto> Fin (- 20), ''bull_pct'' \<mapsto> Fin 25])"
proof (intro conjI allI impI)
  fix price assume "get_ratio self ''Current_Price'' None = Some price \<and> price > 0"
  then show "calculate_valuation_range self =
        [''bear_case'' \<mapsto> float_mul (to_float price) (to_float 0.80),
         ''base_case'' \<mapsto> to_float price,
         ''bull_case'' \<mapsto> float_mul (to_float price) (to_float 1.25),
         ''bear_pct'' \<mapsto> Fin (- 20), ''bull_pct'' \<mapsto> Fin 25]"
    by (simp add: valuation_positive)
next
  fix price
  assume h: "get_ratio self ''Current_Price'' None = Some price \<and>
        1 / 2 ^ 1000 \<le> price \<and> price \<le> 2 ^ 1000"
  then have lo: "1 / 2 ^ 1000 \<le> price" and hi: "price \<le> 2 ^ 1000" by simp_all
  have pos: "0 < price" using lo by (rule less_le_trans[rotated]) simp
  obtain bear where bear: "float_mul (to_float price) (to_float 0.80) = Fin bear"
    and bear_err: "\<bar>bear - price * 0.80\<bar> \<le> price * 0.80 / 2 ^ 50"
    using float_mul_accuracy[OF lo hi, of "0.80"] by auto
  obtain bull where bull: "float_mul (to_float price) (to_float 1.25) = Fin bull"
    and bull_err: "\<bar>bull - price * 1.25\<bar> \<le> price * 1.25 / 2 ^ 50"
    using float_mul_accuracy[OF lo hi, of "1.25"] by auto
  have "2 powi (- 1022) \<le> price"
    using lo by (simp add: power_int_minus_divide)
  moreover have "price < 2 powi 1023" using hi by simp
  ultimately obtain base where base: "to_float price = Fin base"
    and base_err: "\<bar>base - price\<bar> \<le> price / 2 ^ 53"
    using to_float_normal by blast
  have "calculate_valuation_range self =
        [''bear_case'' \<mapsto> Fin bear, ''base_case'' \<mapsto> Fin base, ''bull_case'' \<mapsto> Fin bull,
         ''bear_pct'' \<mapsto> Fin (- 20), ''bull_pct'' \<mapsto> Fin 25]"
    using h pos by (simp only: valuation_positive bear bull) (simp only: base)
  then have "calculate_valuation_range self ''bear_case'' = Some (Fin bear) \<and>
         calculate_valuation_range self ''base_case'' = Some (Fin base) \<and>
         calculate_valuation_range self ''bull_case'' = Some (Fin bull)"
    by simp
  with bear_err base_err bull_err
  show "\<exists>bear base bull.
         calculate_valuation_range self ''bear_case'' = Some (Fin bear) \<and>
         calculate_valuation_range self ''base_case'' = Some (Fin base) \<and>
         calculate_valuation_range self ''bull_case'' = Some (Fin bull) \<and>
         \<bar>bear - price * 0.80\<bar> \<le> price * 0.80 / 2 ^ 50 \<and>
         \<bar>base - price\<bar> \<le> price / 2 ^ 53 \<and>
         \<bar>bull - price * 1.25\<bar> \<le> price * 1.25 / 2 ^ 50"
    by blast
next
  assume "get_ratio self ''Current_Price'' None = Some 100"
  then show "calculate_valuation_range self =
        [''bear_case'' \<mapsto> Fin 80, ''base_case'' \<mapsto> Fin 100, ''bull_case'' \<mapsto> Fin 125,
         ''bear_pct'' \<mapsto> Fin (- 20), ''bull_pct'' \<mapsto> Fin 25]"
    by (simp add: calculate_valuation_range_def float_eval)
next
  assume "get_ratio self ''Current_Price'' None = None \<or>
    (\<exists>price. get_ratio self ''Current_Price'' None = Some price \<and> price \<le> 0)"
  then show "calculate_valuation_range self =
        [''bear_case'' \<mapsto> Fin 0, ''base_case'' \<mapsto> Fin 0, ''bull_case'' \<mapsto> Fin 0,
         ''bear_pct'' \<mapsto> Fin (- 20), ''bull_pct'' \<mapsto> Fin 25]"
    by (auto simp: calculate_valuation_range_def)
qed

theorem valuation_range_cases_witness:
  "calculate_valuation_range (init strong_fin) =
     [''bear_case'' \<mapsto> Fin 80, ''base_case'' \<mapsto> Fin 100, ''bull_case'' \<mapsto> Fin 125,
      ''bear_pct'' \<mapsto> Fin (- 20), ''bull_pct'' \<mapsto> Fin 25] \<and>
   calculate_valuation_range (init empty_fin) =
     [''bear_case'' \<mapsto> Fin 0, ''base_case'' \<mapsto> Fin 0, ''bull_case'' \<mapsto> Fin 0,
      ''bear_pct'' \<mapsto> Fin (- 20), ''bull_pct'' \<mapsto> Fin 25] \<and>
   calculate_valuation_range (init penny_fin) =
     [''bear_case'' \<mapsto> Fin (1441151880758559 / 18014398509481984),
      ''base_case'' \<mapsto> Fin (3602879701896397 / 36028797018963968),
      ''bull_case'' \<mapsto> Fin (1 / 8),
      ''bear_pct'' \<mapsto> Fin (- 20), ''bull_pct'' \<mapsto> Fin 25]"
proof -
  have a: "get_ratio (init strong_fin) ''Current_Price'' None = Some 100 \<and> (100::real) > 0"
    by (simp add: strong_vals)
  have b: "get_ratio (init empty_fin) ''Current_Price'' None = None"
    by (simp add: empty_vals)
  have c: "get_ratio (init penny_fin) ''Current_Price'' None = Some 0.1 \<and> (0.1::real) > 0"
    by (simp add: accessor_defs penny_fin_def)
  have "calculate_valuation_range (init penny_fin) =
        [''bear_case'' \<mapsto> float_mul (to_float 0.1) (to_float 0.80),
         ''base_case'' \<mapsto> to_float 0.1,
         ''bull_case'' \<mapsto> float_mul (to_float 0.1) (to_float 1.25),
         ''bear_pct'' \<mapsto> Fin (- 20), ''bull_pct'' \<mapsto> Fin 25]"
    using c valuation_range_cases[of "init penny_fin"] by blast
  moreover have "calculate_valuation_range (init strong_fin) =
        [''bear_case'' \<mapsto> Fin 80, ''base_case'' \<mapsto> Fin 100, ''bull_case'' \<mapsto> Fin 125,
         ''bear_pct'' \<mapsto> Fin (- 20), ''bull_pct'' \<mapsto> Fin 25]"
    using a valuation_range_cases[of "init strong_fin"] by blast
  moreover have "calculate_valuation_range (init empty_fin) =
        [''bear_case'' \<mapsto> Fin 0, ''base_case'' \<mapsto> Fin 0, ''bull_case'' \<mapsto> Fin 0,
         ''bear_pct'' \<mapsto> Fin (- 20), ''bull_pct'' \<mapsto> Fin 25]"
    using b valuation_range_cases[of "init empty_fin"] by blast
  ultimately show ?thesis
    by (simp add: float_eval)
qed

subsection \<open>Red flags\<close>

lemma fired_length: "length (fired r) = (if fired r = [] then 0 else 1)"
  by (cases r rule: fired.cases) simp_all

text \<open>
  C7: \<open>detect_red_flags\<close> never returns an empty list.  When none of the five checks
  triggers, the result is the one-element list holding the success message; otherwise it
  holds one warning for each check that triggers, as many as trigger.
\<close>

theorem red_flags_never_empty:
  "detect_red_flags self \<noteq> [] \<and>
   detect_red_flags self =
     (if fired_messages (red_flag_rules self) = [] then [no_red_flags_msg]
      else fired_messages (red_flag_rules self)) \<and>
   length (fired_messages (red_flag_rules self)) =
     length (filter (\<lambda>r. fired r \<noteq> []) (red_flag_rules self))"
proof -
  have "length (concat (map fired rs)) = length (filter (\<lambda>r. fired r \<noteq> []) rs)" for rs
    by (induction rs) (simp_all add: fired_length)
  then show ?thesis
    by (simp add: detect_red_flags_def Let_def red_flag_signals_fired fired_messages_def)
qed

theorem red_flags_never_empty_witness:
  "detect_red_flags (init empty_fin) = [no_red_flags_msg] \<and>
   detect_red_flags (init distressed_fin) =
     [''Negative return on equity (-10.0%) - company is destroying shareholder value'',
      ''High leverage (3.00x D/E) - elevated bankruptcy risk'',
      ''Liquidity crisis (Current Ratio: 0.50x) - may struggle to meet obligations'',
      ''Significant revenue decline (-10.0% CAGR) - business is shrinking'',
      ''Extreme valuation (P/E: 150.0x) - priced for perfection'']"
  using red_flags_never_empty[of "init empty_fin"] red_flags_never_empty[of "init distressed_fin"]
  by (simp add: red_flag_rules_def fired_messages_def empty_vals distressed_vals
      red_roe_msg_def red_current_ratio_msg_def red_de_ratio_msg_def red_rev_cagr_msg_def
      red_pe_ratio_msg_def
      float_eval)


subsection \<open>Risk assessment\<close>

lemma py_cmp_Some: "py_cmp rel (Some x) c = Inr (rel x c)"
  by (simp add: py_cmp_def)

lemma financial_health_Some:
  "financial_health_level (Some cr) (Some de) =
     Inr (if cr \<ge> 1.5 \<and> de \<le> 0.5 then ''LOW''
          else if cr < 1.0 \<or> de > 2.0 then ''HIGH'' else ''MODERATE'')"
  by (auto simp: financial_health_level_def py_cmp_Some py_and_def py_or_def split: bool.splits)

lemma liquidity_Some:
  "liquidity_level (Some cr) =
     Inr (if cr \<ge> 2.0 then ''LOW'' else if cr < 1.0 then ''HIGH'' else ''MODERATE'')"
  by (auto simp: liquidity_level_def py_cmp_Some split: bool.splits)

lemma valuation_Some:
  "valuation_level (Some pe) =
     (if pe < 20 then ''LOW'' else if pe > 40 then ''HIGH'' else ''MODERATE'')"
  by (simp add: valuation_level_def)

lemma growth_Some:
  "growth_level (Some cagr) =
     (if cagr > 0.10 then ''LOW'' else if cagr < 0 then ''HIGH'' else ''MODERATE'')"
  by (simp add: growth_level_def)

lemma profitability_Some:
  "profitability_level (Some roe) (Some om) =
     (if roe > 0.15 \<and> om > 0.15 then ''LOW''
      else if roe < 0 \<or> om < 0.05 then ''HIGH'' else ''MODERATE'')"
  by (simp add: profitability_level_def)

lemma assess_risks_eq:
  "assess_risks self =
     Inr (risk_table
            (or_default (get_ratio self ''Current_Ratio'' None) 1.0)
            (or_default (get_ratio self ''Debt_to_Equity'' None) 1.0)
            (or_default (get_ratio self ''PE_Ratio'' None) 20.0)
            (or_default (get_growth_rate self ''Total_Revenue_CAGR'' None) 0.05)
            (or_default (get_ratio self ''ROE'' None) 0.10)
            (or_default (get_ratio self ''Operating_Margin'' None) 0.10))"
  unfolding assess_risks_def Let_def get_ratio_Some get_growth_rate_Some
    financial_health_Some liquidity_Some valuation_Some growth_Some profitability_Some
    risk_table_def
  by (simp only: sum.case)

lemma risk_table_dom:
  "dom (risk_table cr de pe cagr roe om) =
     {''Financial Health'', ''Valuation'', ''Growth'', ''Liquidity'', ''Profitability''}"
  unfolding risk_table_def by (simp only: dom_fun_upd dom_empty option.simps) auto

lemma ran_upd_within: "ran m \<subseteq> S \<Longrightarrow> ran (m(k \<mapsto> v)) \<subseteq> insert v S"
  by (auto simp: ran_def)

lemma ran_five:
  "ran [a \<mapsto> x1, b \<mapsto> x2, c \<mapsto> x3, d \<mapsto> x4, e \<mapsto> x5] \<subseteq> {x5, x4, x3, x2, x1}"
  by (intro ran_upd_within) simp

lemma level_if:
  "(if c1 then ''LOW'' else if c2 then ''HIGH'' else ''MODERATE'') \<in> {''LOW'', ''MODERATE'', ''HIGH''}"
  by simp

lemma risk_table_ran:
  "ran (risk_table cr de pe cagr roe om) \<subseteq> {''LOW'', ''MODERATE'', ''HIGH''}"
proof -
  have sub: "{x5, x4, x3, x2, x1} \<subseteq> S" if "x1 \<in> S" "x2 \<in> S" "x3 \<in> S" "x4 \<in> S" "x5 \<in> S"
    for x1 x2 x3 x4 x5 :: string and S
    using that by simp
  show ?thesis
    unfolding risk_table_def
    by (rule order_trans[OF ran_five], rule sub) (rule level_if)+
qed

text \<open>
  C3: for every record, the empty one included, \<open>assess_risks\<close> returns a mapping with
  exactly the five keys Financial Health, Valuation, Growth, Liquidity and Profitability,
  each mapped to LOW, MODERATE or HIGH.  A missing ratio is replaced by its default
  (current ratio 1.0, debt to equity 1.0, P/E 20.0, revenue CAGR 0.05, ROE 0.10,
  operating margin 0.10), so that every category is decided by the risk table.
\<close>

theorem assess_risks_total:
  "\<exists>risks.
     assess_risks self = Inr risks \<and>
     dom risks = {''Financial Health'', ''Valuation'', ''Growth'', ''Liquidity'', ''Profitability''} \<and>
     ran risks \<subseteq> {''LOW'', ''MODERATE'', ''HIGH''} \<and>
     risks =
       risk_table
         (or_default (get_ratio self ''Current_Ratio'' None) 1.0)
         (or_default (get_ratio self ''Debt_to_Equity'' None) 1.0)
         (or_default (get_ratio self ''PE_Ratio'' None) 20.0)
         (or_default (get_growth_rate self ''Total_Revenue_CAGR'' None) 0.05)
         (or_default (get_ratio self ''ROE'' None) 0.10)
         (or_default (get_ratio self ''Operating_Margin'' None) 0.10)"
  by (intro exI conjI) (rule assess_risks_eq risk_table_dom risk_table_ran refl)+

theorem assess_risks_total_witness:
  "assess_risks (init empty_fin) =
     Inr [''Financial Health'' \<mapsto> ''MODERATE'', ''Valuation'' \<mapsto> ''MODERATE'',
          ''Growth'' \<mapsto> ''MODERATE'', ''Liquidity'' \<mapsto> ''MODERATE'',
          ''Profitability'' \<mapsto> ''MODERATE''] \<and>
   assess_risks (init strong_fin) =
     Inr [''Financial Health'' \<mapsto> ''LOW'', ''Valuation'' \<mapsto> ''LOW'',
          ''Growth'' \<mapsto> ''LOW'', ''Liquidity'' \<mapsto> ''LOW'',
          ''Profitability'' \<mapsto> ''LOW'']"
  using assess_risks_total[of "init empty_fin"] assess_risks_total[of "init strong_fin"]
  by (simp add: empty_vals strong_vals risk_table_def or_default_def)


text \<open>
  C10: called with a default that is not \<open>None\<close>, \<open>_get_ratio\<close> never returns
  \<open>None\<close>, and neither does \<open>_get_growth_rate\<close>.  So the tests \<open>is not None\<close> of
  \<open>assess_risks\<close> always succeed: the P/E ratio, the revenue CAGR, the ROE and the
  operating margin it reads are numbers, and the levels for Valuation, Growth and
  Profitability come from the threshold branches, never from the branch for \<open>None\<close>.
\<close>

theorem default_never_none:
  "get_ratio self name (Some d) \<noteq> None \<and>
   get_growth_rate self name (Some d) \<noteq> None \<and>
   (\<exists>pe_ratio rev_cagr roe op_margin.
      get_ratio self ''PE_Ratio'' (Some 20.0) = Some pe_ratio \<and>
      get_growth_rate self ''Total_Revenue_CAGR'' (Some 0.05) = Some rev_cagr \<and>
      get_ratio self ''ROE'' (Some 0.10) = Some roe \<and>
      get_ratio self ''Operating_Margin'' (Some 0.10) = Some op_margin \<and>
      valuation_level (get_ratio self ''PE_Ratio'' (Some 20.0)) =
        (if pe_ratio < 20 then ''LOW'' else if pe_ratio > 40 then ''HIGH'' else ''MODERATE'') \<and>
      growth_level (get_growth_rate self ''Total_Revenue_CAGR'' (Some 0.05)) =
        (if rev_cagr > 0.10 then ''LOW'' else if rev_cagr < 0 then ''HIGH'' else ''MODERATE'') \<and>
      profitability_level (get_ratio self ''ROE'' (Some 0.10))
          (get_ratio self ''Operating_Margin'' (Some 0.10)) =
        (if roe > 0.15 \<and> op_margin > 0.15 then ''LOW''
         else if roe < 0 \<or> op_margin < 0.05 then ''HIGH'' else ''MODERATE''))"
  unfolding get_ratio_Some get_growth_rate_Some valuation_Some growth_Some profitability_Some
  by (intro conjI exI) (rule refl option.distinct(2))+

theorem default_never_none_witness:
  "get_ratio (init weak_fin) ''PE_Ratio'' (Some 20.0) = Some 20 \<and>
   get_ratio (init weak_fin) ''Operating_Margin'' (Some 0.10) = Some 0.1 \<and>
   get_ratio (init weak_fin) ''ROE'' (Some 0.10) = Some (- 0.1) \<and>
   get_growth_rate (init weak_fin) ''Total_Revenue_CAGR'' (Some 0.05) = Some 0.05 \<and>
   get_ratio (init weak_fin) ''PE_Ratio'' (Some 20.0) \<noteq> None"
  using default_never_none[of "init weak_fin" "''PE_Ratio''" "20.0"]
  by (simp add: weak_vals)

subsection \<open>No exception, no change of state\<close>

text \<open>
  C1: for every record no exception escapes a judgment method: the call of each of
  \<open>generate_bull_case\<close>, \<open>generate_bear_case\<close>, \<open>assess_risks\<close>,
  \<open>detect_red_flags\<close>, \<open>calculate_valuation_range\<close> and \<open>get_key_metrics\<close> returns.
  In \<open>_get_ratio\<close> and \<open>_get_growth_rate\<close> an exception raised by the lookup or the
  conversion, and a name that is not found, give the caller's default.
\<close>

theorem no_exception_escapes:
  "(\<forall>m. returned (fst (call m self))) \<and>
   (\<forall>e. get_ratio_body self name dflt = Inl e \<longrightarrow> get_ratio self name dflt = dflt) \<and>
   (\<forall>e. get_growth_rate_body self name dflt = Inl e \<longrightarrow>
        get_growth_rate self name dflt = dflt) \<and>
   (\<forall>df. ratios self = RatiosFrame df \<and> StrLabel name \<notin> set (df_index df) \<and>
         StrLabel name \<notin> set (df_columns df) \<longrightarrow> get_ratio self name dflt = dflt) \<and>
   (\<forall>d. growth_rates self = GrowthDict d \<and> d name = None \<longrightarrow>
        get_growth_rate self name dflt = dflt)"
proof (intro conjI allI impI)
  fix m
  have "\<exists>risks. assess_risks self = Inr risks"
    by (simp only: assess_risks_eq) blast
  then show "returned (fst (call m self))"
    by (cases m) (auto simp: generate_bull_case_eq generate_bear_case_eq)
next
  fix e assume "get_ratio_body self name dflt = Inl e"
  then show "get_ratio self name dflt = dflt" by (simp add: get_ratio_def)
next
  fix e assume "get_growth_rate_body self name dflt = Inl e"
  then show "get_growth_rate self name dflt = dflt" by (simp add: get_growth_rate_def)
next
  fix df assume "ratios self = RatiosFrame df \<and> StrLabel name \<notin> set (df_index df) \<and>
         StrLabel name \<notin> set (df_columns df)"
  then show "get_ratio self name dflt = dflt"
    by (simp add: get_ratio_def get_ratio_body_def)
next
  fix d assume "growth_rates self = GrowthDict d \<and> d name = None"
  then show "get_growth_rate self name dflt = dflt"
    by (simp add: get_growth_rate_def get_growth_rate_body_def coerce_of_default)
qed

theorem no_exception_escapes_witness:
  "get_ratio_body (init weak_fin) ''Operating_Margin'' None = Inl ValueError \<and>
   get_ratio (init weak_fin) ''Operating_Margin'' None = None \<and>
   get_growth_rate_body (init weak_fin) ''Total_Revenue_CAGR'' (Some 0.05) = Inl AttributeError \<and>
   get_growth_rate (init weak_fin) ''Total_Revenue_CAGR'' (Some 0.05) = Some 0.05 \<and>
   get_ratio (init weak_fin) ''Market_Cap'' None = None \<and>
   get_growth_rate (init strong_fin) ''EPS_CAGR'' None = None \<and>
   (\<forall>m. returned (fst (call m (init weak_fin)))) \<and>
   (\<forall>m. returned (fst (call m (init empty_fin))))"
proof -
  have a: "get_ratio_body (init weak_fin) ''Operating_Margin'' None = Inl ValueError"
    by (simp add: accessor_defs weak_fin_def weak_frame_def)
  have b: "get_growth_rate_body (init weak_fin) ''Total_Revenue_CAGR'' (Some 0.05) = Inl AttributeError"
    by (simp add: accessor_defs weak_fin_def)
  have c: "ratios (init weak_fin) = RatiosFrame weak_frame \<and>
           StrLabel ''Market_Cap'' \<notin> set (df_index weak_frame) \<and>
           StrLabel ''Market_Cap'' \<notin> set (df_columns weak_frame)"
    by (simp add: init_def weak_fin_def weak_frame_def)
  have d: "growth_rates (init strong_fin) = GrowthDict [''Total_Revenue_CAGR'' \<mapsto> PyFloat 0.12] \<and>
           [''Total_Revenue_CAGR'' \<mapsto> PyFloat 0.12] ''EPS_CAGR'' = None"
    by (simp add: init_def strong_fin_def)
  show ?thesis
    using a b c d
      no_exception_escapes[of "init weak_fin" "''Operating_Margin''" None]
      no_exception_escapes[of "init weak_fin" "''Total_Revenue_CAGR''" "Some 0.05"]
      no_exception_escapes[of "init weak_fin" "''Market_Cap''" None]
      no_exception_escapes[of "init strong_fin" "''EPS_CAGR''" None]
      no_exception_escapes[of "init empty_fin" "''ROE''" None]
    by simp
qed

subsection \<open>The methods on a store\<close>

lemma lookup_old: "a < length h \<Longrightarrow> lookup (h @ xs) a = lookup h a"
  by (simp add: lookup_def nth_append)

lemma lookup_last: "lookup (h @ [ob]) (length h) = Some ob"
  by (simp add: lookup_def)

lemma lookup_Some_less: "lookup h a = Some ob \<Longrightarrow> a < length h"
  by (simp add: lookup_def split: if_splits)

lemma get_ratio_st_old:
  "lookup h self = Some (Instance g) \<Longrightarrow> get_ratio_st self name d (h @ xs) = get_ratio g name d"
  by (frule lookup_Some_less) (simp add: get_ratio_st_def lookup_old)

lemma get_growth_rate_st_old:
  "lookup h self = Some (Instance g) \<Longrightarrow>
   get_growth_rate_st self name d (h @ xs) = get_growth_rate g name d"
  by (frule lookup_Some_less) (simp add: get_growth_rate_st_def lookup_old)

lemma list_value_last: "list_value (h @ [ListObj xs]) (length h) = xs"
  by (simp add: list_value_def lookup_last)

lemma list_append_last:
  "list_append (length h) s (h @ [ListObj xs]) = h @ [ListObj (xs @ [s])]"
  by (simp add: list_append_def lookup_last)

lemma append_when_st_last:
  "append_when_st v P msg (length h) (h @ [ListObj xs]) = h @ [ListObj (append_when v P msg xs)]"
  by (simp add: append_when_st_def append_when_def list_append_last split: option.split)

lemma dict_value_last: "dict_value (h @ [RisksObj m]) (length h) = m"
  by (simp add: dict_value_def lookup_last)

lemma dict_store_last:
  "dict_store (length h) k v (h @ [RisksObj m]) = h @ [RisksObj (m(k \<mapsto> v))]"
  by (simp add: dict_store_def lookup_last)

lemma pad_pass_st_last:
  "pad_pass_st fbs (length h) (h @ [ListObj xs]) = h @ [ListObj (pad_pass fbs xs)]"
  unfolding pad_pass_st_def pad_pass_def
  by (induction fbs arbitrary: xs) (simp_all add: list_value_last list_append_last)

lemma pad_loop_st_last:
  assumes "distinct [a, b, c]"
  shows "pad_loop_st [a, b, c] (length h) (h @ [ListObj xs]) =
           Some (h @ [ListObj (if length xs < 3 then pad_pass [a, b, c] xs else xs)])"
proof (cases "length xs < 3")
  case True
  then have "length (pad_pass [a, b, c] xs) = 3" using assms by (simp add: pad_pass_three)
  then have "pad_loop_st [a, b, c] (length h) (h @ [ListObj (pad_pass [a, b, c] xs)]) =
               Some (h @ [ListObj (pad_pass [a, b, c] xs)])"
    by (subst pad_loop_st.simps) (simp add: list_value_last)
  with True show ?thesis
    by (subst pad_loop_st.simps) (simp add: list_value_last pad_pass_st_last)
next
  case False
  then show ?thesis by (subst pad_loop_st.simps) (simp add: list_value_last)
qed

lemma pad_loop_st_eq:
  assumes "distinct [a, b, c]"
  shows "pad_loop_st [a, b, c] (length h) (h @ [ListObj xs]) =
           map_option (\<lambda>ys. h @ [ListObj ys]) (pad_loop [a, b, c] xs)"
  using assms by (simp add: pad_loop_st_last pad_loop_three)

lemma bull_signals_st_eq:
  assumes "lookup h self = Some (Instance g)"
  shows "bull_signals_st self h = (length h, h @ [ListObj (bull_signals g)])"
  using assms
  by (simp add: bull_signals_st_def bull_signals_def alloc_def Let_def append_when_st_last
      get_ratio_st_old get_growth_rate_st_old)

lemma bear_signals_st_eq:
  assumes "lookup h self = Some (Instance g)"
  shows "bear_signals_st self h = (length h, h @ [ListObj (bear_signals g)])"
  using assms
  by (simp add: bear_signals_st_def bear_signals_def alloc_def Let_def append_when_st_last
      get_ratio_st_old get_growth_rate_st_old)


lemma generate_bull_case_st_eq:
  assumes "lookup h self = Some (Instance g)"
  shows "\<exists>ob. generate_bull_case_st self h = map_option (\<lambda>r. (r, h @ [ob])) (generate_bull_case g)"
proof -
  have "distinct [''Established market position with brand recognition'',
          ''Diversified revenue streams reduce concentration risk'',
          ''Experienced management team with track record'']"
    by simp
  then show ?thesis
    using assms
    by (simp add: generate_bull_case_st_def bull_signals_st_eq bull_fallback_points_def
        pad_loop_st_last list_value_last generate_bull_case_def pad_loop_three)
qed

lemma generate_bear_case_st_eq:
  assumes "lookup h self = Some (Instance g)"
  shows "\<exists>ob. generate_bear_case_st self h = map_option (\<lambda>r. (r, h @ [ob])) (generate_bear_case g)"
proof -
  have "distinct [''Competitive pressure may compress margins over time'',
          ''Macroeconomic sensitivity could impact near-term results'',
          ''Execution risk in strategic initiatives'']"
    by simp
  then show ?thesis
    using assms
    by (simp add: generate_bear_case_st_def bear_signals_st_eq bear_fallback_points_def
        pad_loop_st_last list_value_last generate_bear_case_def pad_loop_three)
qed

lemma assess_risks_st_eq:
  assumes "lookup h self = Some (Instance g)"
  shows "\<exists>ob. assess_risks_st self h = (assess_risks g, h @ [ob])"
  using assms
  by (simp add: assess_risks_st_def assess_risks_def alloc_def Let_def dict_store_last
      dict_value_last get_ratio_st_old get_growth_rate_st_old split: sum.split)

lemma detect_red_flags_st_eq:
  assumes "lookup h self = Some (Instance g)"
  shows "\<exists>ob. detect_red_flags_st self h = (detect_red_flags g, h @ [ob])"
  using assms
  by (simp add: detect_red_flags_st_def detect_red_flags_def red_flag_signals_def alloc_def
      Let_def append_when_st_last list_value_last list_append_last
      get_ratio_st_old get_growth_rate_st_old)

lemma calculate_valuation_range_st_eq:
  assumes "lookup h self = Some (Instance g)"
  shows "\<exists>ob. calculate_valuation_range_st self h = (calculate_valuation_range g, h @ [ob])"
  using assms
  by (simp add: calculate_valuation_range_st_def calculate_valuation_range_def alloc_def Let_def
      get_ratio_st_old[of _ _ _ _ _ "[]", simplified])

lemma get_key_metrics_st_eq:
  assumes "lookup h self = Some (Instance g)"
  shows "\<exists>ob. get_key_metrics_st self h = (get_key_metrics g, h @ [ob])"
  using assms
  by (simp add: get_key_metrics_st_def get_key_metrics_def alloc_def Let_def
      get_ratio_st_old[of _ _ _ _ _ "[]", simplified])

lemma call_st_eq:
  assumes "lookup h self = Some (Instance g)"
  shows "\<exists>r ob. call_st m self h = Some (r, h @ [ob]) \<and> r = fst (call m g)"
proof (cases m)
  case Generate_bull_case
  then show ?thesis
    using generate_bull_case_st_eq[OF assms] by (auto simp: generate_bull_case_eq)
next
  case Generate_bear_case
  then show ?thesis
    using generate_bear_case_st_eq[OF assms] by (auto simp: generate_bear_case_eq)
next
  case Assess_risks
  then show ?thesis using assess_risks_st_eq[OF assms] by auto
next
  case Detect_red_flags
  then show ?thesis using detect_red_flags_st_eq[OF assms] by auto
next
  case Calculate_valuation_range
  then show ?thesis using calculate_valuation_range_st_eq[OF assms] by auto
next
  case Get_key_metrics
  then show ?thesis using get_key_metrics_st_eq[OF assms] by auto
qed

text \<open>
  C9: every judgment method is a function of the record alone.  A call on a store
  returns the result that the record determines and leaves every object that was in the
  store before, the generator object and its record among them, as it was: what it
  changes are the objects it has created itself.  A second call on the store that the
  first one leaves returns the same result.
\<close>

theorem judgments_pure:
  assumes "lookup h self = Some (Instance g)"
  shows "\<exists>r h' h''.
           call_st m self h = Some (r, h') \<and>
           take (length h) h' = h \<and>
           lookup h' self = Some (Instance g) \<and>
           r = fst (call m g) \<and>
           call_st m self h' = Some (r, h'') \<and>
           take (length h) h'' = h"
proof -
  obtain r ob where first: "call_st m self h = Some (r, h @ [ob])" and r: "r = fst (call m g)"
    using call_st_eq[OF assms] by blast
  have self': "lookup (h @ [ob]) self = Some (Instance g)"
    using assms lookup_Some_less[OF assms] by (simp add: lookup_old)
  obtain r' ob' where second: "call_st m self (h @ [ob]) = Some (r', (h @ [ob]) @ [ob'])"
    and r': "r' = fst (call m g)"
    using call_st_eq[OF self'] by blast
  show ?thesis
    using first second r r' self' by simp
qed


theorem judgments_pure_witness:
  "lookup [ListObj [''kept''], Instance (init weak_fin)] 1 = Some (Instance (init weak_fin)) \<and>
   (\<exists>r h' h''.
      call_st Generate_bear_case 1 [ListObj [''kept''], Instance (init weak_fin)] = Some (r, h') \<and>
      take 2 h' = [ListObj [''kept''], Instance (init weak_fin)] \<and>
      call_st Generate_bear_case 1 h' = Some (r, h'') \<and>
      take 2 h'' = [ListObj [''kept''], Instance (init weak_fin)]) \<and>
   call_st Generate_bull_case 1 [ListObj [''kept''], Instance (init weak_fin)] =
     Some (Points (Some bull_fallback_points),
           [ListObj [''kept''], Instance (init weak_fin), ListObj bull_fallback_points])"
proof -
  have h: "lookup [ListObj [''kept''], Instance (init weak_fin)] 1 = Some (Instance (init weak_fin))"
    by (simp add: lookup_def)
  have "call_st Generate_bull_case 1 [ListObj [''kept''], Instance (init weak_fin)] =
     Some (Points (Some bull_fallback_points),
           [ListObj [''kept''], Instance (init weak_fin), ListObj bull_fallback_points])"
    by (simp add: generate_bull_case_st_def bull_signals_st_def alloc_def Let_def
        get_ratio_st_def get_growth_rate_st_def lookup_def weak_vals append_when_st_def
        bull_fallback_points_def pad_loop_st.simps pad_pass_st_def list_value_def list_append_def)
  then show ?thesis
    using h judgments_pure[OF h, of Generate_bear_case] by (auto simp: numeral_2_eq_2)
qed


end
